theory Spec2Isabelle
  imports
    Complex_Main
    "HOL-Library.Word"
    "HOL-Library.Signed_Division"
    "HOL-Library.Multiset"
begin

section \<open>Triangula: latency-based geolocation (main.go)\<close>

text \<open>
  The development follows \<^verbatim>\<open>main.go\<close>. Two conventions hold throughout.

  \<^item> \<^verbatim>\<open>time.Duration\<close> is Go's \<^verbatim>\<open>int64\<close> count of nanoseconds; it is a
    \<open>64 word\<close>, read as two's complement with \<open>sint\<close>, so that subtraction,
    negation and addition wrap as they do in Go.
  \<^item> \<^verbatim>\<open>float64\<close> is idealised as \<open>real\<close>: arithmetic is exact, there is no
    rounding and no signed zero. Where Go divides a float by zero (the result is
    \<^verbatim>\<open>NaN\<close> or an infinity, which no real number stands for) the model stops with
    the anomaly \<open>NotANumber\<close> instead of using HOL's \<open>x / 0 = 0\<close>. One
    subsection, on the multilateration in binary64, drops the idealisation and rounds
    every operation as IEEE 754 binary64 does.
\<close>

subsection \<open>Data model\<close>

type_synonym Duration = "64 word"
type_synonym float64 = real

record Server =
  Name :: string
  IP :: string
  Country :: string
  City :: string
  Lat :: float64
  Lon :: float64
  AvgRTT :: Duration

record Result =
  Server :: Server
  Delta :: Duration
  Distance :: float64

record Location =
  LocLat :: float64
  LocLon :: float64

text \<open>
  What a Go run can end in besides a value: a run-time panic on an index out of
  range, and a float that is not a number. \<open>IllConditioned\<close> is no outcome of a
  run but the silence of the idealisation: a sum that is exactly zero on the reals
  is, in \<^verbatim>\<open>float64\<close>, zero or a rounding residue, so that dividing by it gives a
  \<^verbatim>\<open>NaN\<close> in some runs and a number in others; exact arithmetic cannot tell which.
  \<open>NotFinite\<close> belongs to the binary64 model of the multilateration: a value
  that is an infinity or a \<^verbatim>\<open>NaN\<close>.
\<close>

datatype anomaly = IndexOutOfRange | NotANumber | IllConditioned | NotFinite

definition speedOfLight :: float64 where
  "speedOfLight = 299792.458"

definition fiberSpeed :: float64 where
  "fiberSpeed = speedOfLight * 0.67"

definition earthRadius :: float64 where
  "earthRadius = 6371.0"

subsection \<open>Durations\<close>

text \<open>
  Go's integer division truncates towards zero; on \<open>int\<close> that is \<open>sdiv\<close> and
  \<open>smod\<close>, and \<open>word_of_int\<close> wraps the one quotient that overflows
  \<^verbatim>\<open>int64\<close> (the least value by \<open>-1\<close>) as Go does. Dividing by zero, a panic in
  Go, does not arise: the divisors below are the constants \<open>Millisecond\<close> and
  \<open>Second\<close> and the length of a slice that is not empty.
\<close>

definition duration_div :: "Duration \<Rightarrow> Duration \<Rightarrow> Duration" where
  "duration_div a b = word_of_int (sint a sdiv sint b)"

definition duration_rem :: "Duration \<Rightarrow> Duration \<Rightarrow> Duration" where
  "duration_rem a b = word_of_int (sint a smod sint b)"

definition Millisecond :: Duration where
  "Millisecond = 1000000"

definition Second :: Duration where
  "Second = 1000000000"

text \<open>\<^verbatim>\<open>func (d Duration) Milliseconds() int64 { return int64(d) / 1e6 }\<close>\<close>

definition Milliseconds :: "Duration \<Rightarrow> 64 word" where
  "Milliseconds d = duration_div d Millisecond"

text \<open>
  \<^verbatim>\<open>func (d Duration) Seconds() float64\<close>: whole seconds plus the remaining
  nanoseconds over \<open>1e9\<close>.
\<close>

definition Seconds :: "Duration \<Rightarrow> float64" where
  "Seconds d =
     (let sec = duration_div d Second;
          nsec = duration_rem d Second
      in real_of_int (sint sec) + real_of_int (sint nsec) / 1000000000)"

subsection \<open>Distance model\<close>

definition rttToDistance :: "Duration \<Rightarrow> float64" where
  "rttToDistance rtt = (let seconds = Seconds rtt in (seconds * fiberSpeed) / 2)"

subsection \<open>Geometry kernel\<close>

text \<open>
  \<^verbatim>\<open>math.Atan2(y, x)\<close> on the reals: the angle of the point \<open>(x, y)\<close> in
  \<open>(-\<pi>, \<pi>]\<close>, with Go's value \<open>0\<close> at the origin.
\<close>

definition Atan2 :: "float64 \<Rightarrow> float64 \<Rightarrow> float64" where
  "Atan2 y x =
     (if 0 < x then arctan (y / x)
      else if x < 0 then (if 0 \<le> y then arctan (y / x) + pi else arctan (y / x) - pi)
      else if 0 < y then pi / 2
      else if y < 0 then - pi / 2
      else 0)"

definition geoToCartesian :: "float64 \<Rightarrow> float64 \<Rightarrow> float64 \<times> float64 \<times> float64" where
  "geoToCartesian lat lon =
     (let latRad = lat * pi / 180;
          lonRad = lon * pi / 180;
          x = earthRadius * cos latRad * cos lonRad;
          y = earthRadius * cos latRad * sin lonRad;
          z = earthRadius * sin latRad
      in (x, y, z))"

definition cartesianToGeo :: "float64 \<Rightarrow> float64 \<Rightarrow> float64 \<Rightarrow> float64 \<times> float64" where
  "cartesianToGeo x y z =
     (let lon = Atan2 y x * 180 / pi;
          hyp = sqrt (x * x + y * y);
          lat = Atan2 z hyp * 180 / pi
      in (lat, lon))"

subsection \<open>Trilateration\<close>

text \<open>The weight of a reference point at estimated distance \<open>d\<close>: \<^verbatim>\<open>1.0 / (d + 1.0)\<close>.\<close>

definition distance_weight :: "float64 \<Rightarrow> float64" where
  "distance_weight d = 1.0 / (d + 1.0)"

definition trilaterate ::
  "Server \<Rightarrow> Server \<Rightarrow> Server \<Rightarrow> float64 \<Rightarrow> float64 \<Rightarrow> float64 \<Rightarrow> anomaly + Location" where
  "trilaterate s1 s2 s3 d1 d2 d3 =
     (let (x1, y1, z1) = geoToCartesian (Lat s1) (Lon s1);
          (x2, y2, z2) = geoToCartesian (Lat s2) (Lon s2);
          (x3, y3, z3) = geoToCartesian (Lat s3) (Lon s3)
      in if d1 + 1.0 = 0 \<or> d2 + 1.0 = 0 \<or> d3 + 1.0 = 0 then Inl NotANumber
      else
        let w1 = distance_weight d1;
            w2 = distance_weight d2;
            w3 = distance_weight d3;
            totalWeight = w1 + w2 + w3
        in if totalWeight = 0 then Inl IllConditioned
        else
          let xEst = (x1 * w1 + x2 * w2 + x3 * w3) / totalWeight;
              yEst = (y1 * w1 + y2 * w2 + y3 * w3) / totalWeight;
              zEst = (z1 * w1 + z2 * w2 + z3 * w3) / totalWeight;
              norm = sqrt (xEst * xEst + yEst * yEst + zEst * zEst)
          in if norm = 0 then Inl IllConditioned
          else
            let xEst' = xEst / norm * earthRadius;
                yEst' = yEst / norm * earthRadius;
                zEst' = zEst / norm * earthRadius;
                (lat, lon) = cartesianToGeo xEst' yEst' zEst'
            in Inr \<lparr>LocLat = lat, LocLon = lon\<rparr>)"

subsection \<open>Multilateration\<close>

text \<open>
  The weight of a ranked entry: \<^verbatim>\<open>1.0 / (float64(Delta.Milliseconds()) + 1.0)\<close>,
  on the whole milliseconds of the delta.
\<close>

definition delta_ms :: "Result \<Rightarrow> float64" where
  "delta_ms r = real_of_int (sint (Milliseconds (Delta r)))"

definition delta_weight :: "Result \<Rightarrow> float64" where
  "delta_weight r = 1.0 / (delta_ms r + 1.0)"

text \<open>
  The loop \<^verbatim>\<open>for i := 0; i < numServers; i++\<close> with its three accumulators.
  Reading \<^verbatim>\<open>results[i]\<close> outside the slice is Go's run-time panic.
\<close>

function multilateral_loop ::
  "Result list \<Rightarrow> int \<Rightarrow> int \<Rightarrow> float64 \<times> float64 \<times> float64
     \<Rightarrow> anomaly + float64 \<times> float64 \<times> float64" where
  "multilateral_loop results numServers i (totalLat, totalLon, totalWeight) =
     (if i < numServers then
        (if i < 0 \<or> int (length results) \<le> i then Inl IndexOutOfRange
         else
           let r = results ! nat i
           in if delta_ms r + 1.0 = 0 then Inl NotANumber
           else
             let weight = delta_weight r
             in multilateral_loop results numServers (i + 1)
                  (totalLat + Lat (Server r) * weight,
                   totalLon + Lon (Server r) * weight,
                   totalWeight + weight))
      else Inr (totalLat, totalLon, totalWeight))"
  by pat_completeness auto
termination
  by (relation "measure (\<lambda>(results, numServers, i, acc). nat (numServers - i))") auto

definition multilateralTriangulation :: "Result list \<Rightarrow> int \<Rightarrow> anomaly + Location" where
  "multilateralTriangulation results numServers =
     (if length results < 3 then Inr \<lparr>LocLat = 0, LocLon = 0\<rparr>
      else
        let numServers = (if numServers > int (length results)
                          then int (length results) else numServers)
        in case multilateral_loop results numServers 0 (0, 0, 0) of
             Inl e \<Rightarrow> Inl e
           | Inr (totalLat, totalLon, totalWeight) \<Rightarrow>
               if totalWeight = 0 then Inl NotANumber
               else Inr \<lparr>LocLat = totalLat / totalWeight, LocLon = totalLon / totalWeight\<rparr>)"

subsection \<open>Multilateration in binary64\<close>

text \<open>
  How near the multilateration estimate is to the coordinates it averages is a
  question about rounding, so this subsection models the same function on binary64
  numbers: each Go operation yields the exact result rounded to the nearest binary64
  number, ties to even. A binary64 number is kept as the real it denotes.

  \<open>round64\<close> rounds a real to the binary64 grid: a significand of 53 bits, the
  exponent of the value's binade but not below \<open>-1022\<close>, where the grid stays at the
  spacing \<open>2 powr (- 1074)\<close> (gradual underflow). It has no greatest exponent; \<open>finite64\<close>
  tells whether a rounded value is a finite binary64 number, and where it is not (Go
  goes on with an infinity and possibly a \<^verbatim>\<open>NaN\<close>) the model stops with \<open>NotFinite\<close>.
  Signed zero is not modelled.
\<close>

definition rne :: "real \<Rightarrow> int" where
  "rne x =
     (let f = \<lfloor>x\<rfloor>; d = x - of_int f
      in if d < 1 / 2 then f
         else if 1 / 2 < d then f + 1
         else if even f then f else f + 1)"

definition binade :: "real \<Rightarrow> int" where
  "binade x = max \<lfloor>log 2 \<bar>x\<bar>\<rfloor> (- 1022)"

definition round64 :: "real \<Rightarrow> float64" where
  "round64 x =
     (if x = 0 then 0
      else of_int (rne (x / 2 powr of_int (binade x - 52))) * 2 powr of_int (binade x - 52))"








subsection \<open>The triangulation report\<close>

text \<open>
  \<^verbatim>\<open>displayTriangulation\<close> prints; the model keeps what it computes: either the
  message that there are not enough servers, or the two position estimates (the
  coherence lines that follow them read the deltas only and are left out).
\<close>

datatype triangulation_report =
  NotEnoughServers
| Estimates "anomaly + Location" "anomaly + Location"

definition displayTriangulation :: "Result list \<Rightarrow> triangulation_report" where
  "displayTriangulation results =
     (if length results < 3 then NotEnoughServers
      else
        let s1 = Server (results ! 0); s2 = Server (results ! 1); s3 = Server (results ! 2);
            d1 = Distance (results ! 0); d2 = Distance (results ! 1); d3 = Distance (results ! 2);
            loc1 = trilaterate s1 s2 s3 d1 d2 d3;
            numServers = (if int (length results) < 10 then int (length results) else 10);
            loc2 = multilateralTriangulation results numServers
        in Estimates loc1 loc2)"

subsection \<open>Sorting with \<^verbatim>\<open>sort.Slice\<close>\<close>

text \<open>
  \<^verbatim>\<open>sort.Slice\<close> belongs to Go's standard library. Its documentation promises a
  slice sorted by the given \<^verbatim>\<open>less\<close> function and adds: ``The sort is not guaranteed to be
  stable: equal elements may be reversed from their original order.'' The model is
  that contract: any rearrangement of the input in which no element is less than
  one before it.
\<close>

definition sort_Slice :: "('a \<Rightarrow> 'a \<Rightarrow> bool) \<Rightarrow> 'a list \<Rightarrow> 'a list \<Rightarrow> bool" where
  "sort_Slice lessFn xs ys \<longleftrightarrow> mset ys = mset xs \<and> sorted_wrt (\<lambda>a b. \<not> lessFn b a) ys"

text \<open>The ranking step of \<^verbatim>\<open>main\<close>: \<^verbatim>\<open>results[i].Delta < results[j].Delta\<close>.\<close>

definition delta_less :: "Result \<Rightarrow> Result \<Rightarrow> bool" where
  "delta_less a b \<longleftrightarrow> Delta a <s Delta b"

definition rank :: "Result list \<Rightarrow> Result list \<Rightarrow> bool" where
  "rank results ranked \<longleftrightarrow> sort_Slice delta_less results ranked"

subsection \<open>Statistics\<close>

record Stats =
  countryLines :: "(string \<times> int) list"
  avgRTT :: Duration
  totalServers :: int

text \<open>\<^verbatim>\<open>countryStats[r.Server.Country]++\<close> over the results, on a map that starts empty.\<close>

fun countryStats :: "(string \<rightharpoonup> int) \<Rightarrow> Result list \<Rightarrow> (string \<rightharpoonup> int)" where
  "countryStats m [] = m"
| "countryStats m (r # rs) =
     countryStats
       (m(Country (Server r) \<mapsto> (case m (Country (Server r)) of None \<Rightarrow> 0 | Some n \<Rightarrow> n) + 1))
       rs"

text \<open>
  \<^verbatim>\<open>for country, count := range countryStats\<close> visits every entry of the map once,
  in an order Go leaves unspecified: the slice built by the loop is any list of the
  entries without a repeated key.
\<close>

definition map_range :: "(string \<rightharpoonup> int) \<Rightarrow> (string \<times> int) list \<Rightarrow> bool" where
  "map_range m countries \<longleftrightarrow> distinct (map fst countries) \<and> map_of countries = m"

definition count_greater :: "string \<times> int \<Rightarrow> string \<times> int \<Rightarrow> bool" where
  "count_greater a b \<longleftrightarrow> snd a > snd b"

fun totalRTT :: "Duration \<Rightarrow> Result list \<Rightarrow> Duration" where
  "totalRTT t [] = t"
| "totalRTT t (r # rs) = totalRTT (t + AvgRTT (Server r)) rs"

text \<open>
  The printed statistics: the first ten lines of the sorted country counts, the
  average RTT and the number of results. \<open>None\<close> is the early return on an empty
  slice, which prints nothing.
\<close>

inductive displayStatistics :: "Result list \<Rightarrow> Stats option \<Rightarrow> bool" where
  no_results: "displayStatistics [] None"
| statistics:
    "results \<noteq> [] \<Longrightarrow>
     map_range (countryStats Map.empty results) countries \<Longrightarrow>
     sort_Slice count_greater countries countries' \<Longrightarrow>
     displayStatistics results
       (Some \<lparr>countryLines = take 10 countries',
              avgRTT = duration_div (totalRTT 0 results) (word_of_nat (length results)),
              totalServers = int (length results)\<rparr>)"

subsection \<open>Probing\<close>

text \<open>
  The \<^verbatim>\<open>go-ping\<close> library is outside the repository: \<open>net\<close> stands for one run of
  a pinger on an address with a packet count, which either fails (creating the
  pinger or running it) or yields its statistics. A run of the program probes each
  address of its catalog once, so the answer is a function of the address and the
  count.
\<close>

datatype ping_error = PingerError | RunError | NoResponse

record Statistics =
  PacketsRecv :: int
  AvgRtt :: Duration

type_synonym network = "string \<Rightarrow> int \<Rightarrow> ping_error + Statistics"

definition AvgPing :: "network \<Rightarrow> string \<Rightarrow> int \<Rightarrow> ping_error + Duration" where
  "AvgPing net ip cnt =
     (case net ip cnt of
        Inl err \<Rightarrow> Inl err
      | Inr stats \<Rightarrow> if PacketsRecv stats = 0 then Inl NoResponse else Inr (AvgRtt stats))"

subsection \<open>The orchestrator\<close>

text \<open>
  The shared variables of \<^verbatim>\<open>main\<close>, with the servers the loop has still to launch
  and the goroutines that are running. \<open>probed\<close> records each call of \<^verbatim>\<open>AvgPing\<close>
  made by a goroutine.
\<close>

record orch_state =
  unlaunched :: "Server list"
  running :: "Server list"
  results :: "Result list"
  progressCount :: int
  probed :: "string list"

text \<open>The Result a goroutine builds from a successful probe.\<close>

definition measurement :: "Duration \<Rightarrow> Server \<Rightarrow> Duration \<Rightarrow> Result" where
  "measurement targetRTT server avg =
     (let server' = server\<lparr>AvgRTT := avg\<rparr>;
          delta = avg - targetRTT;
          delta' = (if delta <s 0 then - delta else delta);
          estimatedDistance = rttToDistance delta'
      in \<lparr>Server = server', Delta = delta', Distance = estimatedDistance\<rparr>)"

text \<open>
  One goroutine, from its probe to its \<^verbatim>\<open>mu.Unlock()\<close>. The probe touches nothing
  shared, so the body acts on the shared state at once, inside the lock.
\<close>

definition goroutine :: "network \<Rightarrow> Duration \<Rightarrow> Server \<Rightarrow> orch_state \<Rightarrow> orch_state" where
  "goroutine net targetRTT server \<sigma> =
     (case AvgPing net (IP server) 3 of
        Inl err \<Rightarrow>
          \<sigma>\<lparr>progressCount := progressCount \<sigma> + 1, probed := probed \<sigma> @ [IP server]\<rparr>
      | Inr avg \<Rightarrow>
          \<sigma>\<lparr>results := results \<sigma> @ [measurement targetRTT server avg],
            progressCount := progressCount \<sigma> + 1,
            probed := probed \<sigma> @ [IP server]\<rparr>)"

text \<open>
  A step of the fan-out: the loop starts the goroutine of the next server, or one of
  the running goroutines, whichever the scheduler picks, completes.
\<close>

inductive orch_step :: "network \<Rightarrow> Duration \<Rightarrow> orch_state \<Rightarrow> orch_state \<Rightarrow> bool"
  for net :: network and targetRTT :: Duration where
  launch:
    "unlaunched \<sigma> = s # rest \<Longrightarrow>
     orch_step net targetRTT \<sigma> (\<sigma>\<lparr>unlaunched := rest, running := running \<sigma> @ [s]\<rparr>)"
| complete:
    "i < length (running \<sigma>) \<Longrightarrow>
     orch_step net targetRTT \<sigma>
       (goroutine net targetRTT (running \<sigma> ! i)
          (\<sigma>\<lparr>running := take i (running \<sigma>) @ drop (Suc i) (running \<sigma>)\<rparr>))"

definition orch_init :: "Server list \<Rightarrow> orch_state" where
  "orch_init servers =
     \<lparr>unlaunched = servers, running = [], results = [], progressCount = 0, probed = []\<rparr>"

text \<open>\<^verbatim>\<open>wg.Wait()\<close> returns once the loop is over and every goroutine is done.\<close>

definition fan_out :: "network \<Rightarrow> Duration \<Rightarrow> Server list \<Rightarrow> orch_state \<Rightarrow> bool" where
  "fan_out net targetRTT servers \<sigma> \<longleftrightarrow>
     (orch_step net targetRTT)\<^sup>*\<^sup>* (orch_init servers) \<sigma> \<and> unlaunched \<sigma> = [] \<and> running \<sigma> = []"

datatype run_outcome =
  TargetUnreachable ping_error
| NoServerResponded
| Analysed "Result list" triangulation_report "Stats option"

inductive main_run :: "network \<Rightarrow> string \<Rightarrow> Server list \<Rightarrow> run_outcome \<Rightarrow> bool" where
  target_error:
    "AvgPing net targetIP 5 = Inl err \<Longrightarrow>
     main_run net targetIP servers (TargetUnreachable err)"
| no_response:
    "AvgPing net targetIP 5 = Inr targetRTT \<Longrightarrow>
     fan_out net targetRTT servers \<sigma> \<Longrightarrow>
     results \<sigma> = [] \<Longrightarrow>
     main_run net targetIP servers NoServerResponded"
| analysed:
    "AvgPing net targetIP 5 = Inr targetRTT \<Longrightarrow>
     fan_out net targetRTT servers \<sigma> \<Longrightarrow>
     results \<sigma> \<noteq> [] \<Longrightarrow>
     rank (results \<sigma>) ranked \<Longrightarrow>
     displayStatistics ranked stats \<Longrightarrow>
     main_run net targetIP servers (Analysed ranked (displayTriangulation ranked) stats)"

subsection \<open>The solvers in the words of the specification\<close>

text \<open>
  The multilateration contract: the requested count is clamped to the length of the
  ranked set, each of the top entries weighs \<open>1 / (delta_in_ms + 1)\<close>, and the
  estimate is the weighted arithmetic mean of the latitudes and of the longitudes.
  The mean has no value where a weight or the mean itself divides by zero.
\<close>

definition weighted_mean :: "(float64 \<times> float64) list \<Rightarrow> float64" where
  "weighted_mean wvs = (\<Sum>(w, v)\<leftarrow>wvs. v * w) / (\<Sum>(w, v)\<leftarrow>wvs. w)"

definition top_entries :: "Result list \<Rightarrow> int \<Rightarrow> Result list" where
  "top_entries rs n = take (nat (min n (int (length rs)))) rs"

definition multilateration_spec :: "Result list \<Rightarrow> int \<Rightarrow> anomaly + Location" where
  "multilateration_spec rs n =
     (let top = top_entries rs n
      in if (\<exists>r\<in>set top. delta_ms r + 1 = 0) \<or> (\<Sum>r\<leftarrow>top. delta_weight r) = 0
         then Inl NotANumber
         else Inr \<lparr>LocLat = weighted_mean (map (\<lambda>r. (delta_weight r, Lat (Server r))) top),
                   LocLon = weighted_mean (map (\<lambda>r. (delta_weight r, Lon (Server r))) top)\<rparr>)"









subsection \<open>Counting the probes of a catalog\<close>

text \<open>
  The servers of a catalog whose probe fails, and the Results of the others, in
  catalog order.
\<close>

definition failed_probes :: "network \<Rightarrow> Server list \<Rightarrow> Server list" where
  "failed_probes net servers = filter (\<lambda>s. isl (AvgPing net (IP s) 3)) servers"

fun successful_measurements :: "network \<Rightarrow> Duration \<Rightarrow> Server list \<Rightarrow> Result list" where
  "successful_measurements net targetRTT [] = []"
| "successful_measurements net targetRTT (s # ss) =
     (case AvgPing net (IP s) 3 of
        Inl err \<Rightarrow> successful_measurements net targetRTT ss
      | Inr avg \<Rightarrow> measurement targetRTT s avg # successful_measurements net targetRTT ss)"

text \<open>
  The invariant of the fan-out: what has been collected, together with what the
  goroutines still running or not yet launched will contribute, is what the whole
  catalog yields; likewise for the probes made and for the progress counter.
\<close>

definition orch_inv :: "network \<Rightarrow> Duration \<Rightarrow> Server list \<Rightarrow> orch_state \<Rightarrow> bool" where
  "orch_inv net t servers \<sigma> \<longleftrightarrow>
     mset (results \<sigma>) + mset (successful_measurements net t (running \<sigma>))
       + mset (successful_measurements net t (unlaunched \<sigma>))
       = mset (successful_measurements net t servers) \<and>
     mset (probed \<sigma>) + mset (map IP (running \<sigma>)) + mset (map IP (unlaunched \<sigma>))
       = mset (map IP servers) \<and>
     progressCount \<sigma> + int (length (running \<sigma>)) + int (length (unlaunched \<sigma>))
       = int (length servers)"

subsection \<open>A small run\<close>

text \<open>
  Four entries of \<^verbatim>\<open>getServerDatabase\<close> and a network in which the target answers
  in 20 ms, three of the servers answer in 30, 60 and 100 ms, and the fourth sends no
  packet back.
\<close>

definition cloudflare_paris :: Server where
  "cloudflare_paris =
     \<lparr>Name = ''Cloudflare'', IP = ''1.1.1.1'', Country = ''France'', City = ''Paris'',
      Lat = 48.8566, Lon = 2.3522, AvgRTT = 0\<rparr>"

definition google_uk :: Server where
  "google_uk =
     \<lparr>Name = ''Google-UK'', IP = ''8.8.4.4'', Country = ''UK'', City = ''London'',
      Lat = 51.5074, Lon = - 0.1278, AvgRTT = 0\<rparr>"

definition hetzner_frankfurt :: Server where
  "hetzner_frankfurt =
     \<lparr>Name = ''Hetzner'', IP = ''213.133.100.1'', Country = ''Germany'', City = ''Frankfurt'',
      Lat = 50.1109, Lon = 8.6821, AvgRTT = 0\<rparr>"

definition ovh_paris :: Server where
  "ovh_paris =
     \<lparr>Name = ''OVH'', IP = ''54.36.0.1'', Country = ''France'', City = ''Paris'',
      Lat = 48.8566, Lon = 2.3522, AvgRTT = 0\<rparr>"

definition example_catalog :: "Server list" where
  "example_catalog = [cloudflare_paris, google_uk, hetzner_frankfurt, ovh_paris]"

definition example_target :: string where
  "example_target = ''203.0.113.7''"

definition example_net :: network where
  "example_net ip cnt =
     (if ip = ''203.0.113.7'' then Inr \<lparr>PacketsRecv = cnt, AvgRtt = 20000000\<rparr>
      else if ip = ''1.1.1.1'' then Inr \<lparr>PacketsRecv = cnt, AvgRtt = 30000000\<rparr>
      else if ip = ''8.8.4.4'' then Inr \<lparr>PacketsRecv = cnt, AvgRtt = 60000000\<rparr>
      else if ip = ''213.133.100.1'' then Inr \<lparr>PacketsRecv = cnt, AvgRtt = 100000000\<rparr>
      else if ip = ''54.36.0.1'' then Inr \<lparr>PacketsRecv = 0, AvgRtt = 0\<rparr>
      else Inl PingerError)"

text \<open>The three Results of that run, in catalog order: deltas of 10, 40 and 80 ms.\<close>

definition example_results :: "Result list" where
  "example_results = successful_measurements example_net 20000000 example_catalog"




subsection \<open>Reading the reports\<close>

text \<open>The estimate of the trilateration path in a report, when the report has one.\<close>

definition trilateration_estimate :: "triangulation_report \<Rightarrow> (anomaly + Location) option" where
  "trilateration_estimate report =
     (case report of NotEnoughServers \<Rightarrow> None | Estimates loc1 loc2 \<Rightarrow> Some loc1)"

text \<open>
  The ranking in the words of the specification: a stable sort, ascending by delta
  (insertion by key keeps the order of equal keys).
\<close>

definition stable_rank :: "Result list \<Rightarrow> Result list" where
  "stable_rank rs = sort_key (\<lambda>r. sint (Delta r)) rs"

text \<open>
  The first thirteen entries of \<^verbatim>\<open>getServerDatabase\<close>, and a run in which the
  target answers in 20 ms, the first twelve of them in 30 ms and the thirteenth in
  25 ms: twelve Results tie at a delta of 10 ms, the last has 5 ms.
\<close>

definition catalog_head :: "Server list" where
  "catalog_head =
     [\<lparr>Name = ''Cloudflare'', IP = ''1.1.1.1'', Country = ''France'', City = ''Paris'',
       Lat = 48.8566, Lon = 2.3522, AvgRTT = 0\<rparr>,
      \<lparr>Name = ''Google DNS'', IP = ''216.58.213.195'', Country = ''France'', City = ''Paris'',
       Lat = 48.8566, Lon = 2.3522, AvgRTT = 0\<rparr>,
      \<lparr>Name = ''OVH'', IP = ''54.36.0.1'', Country = ''France'', City = ''Paris'',
       Lat = 48.8566, Lon = 2.3522, AvgRTT = 0\<rparr>,
      \<lparr>Name = ''Scaleway'', IP = ''51.15.0.1'', Country = ''France'', City = ''Paris'',
       Lat = 48.8566, Lon = 2.3522, AvgRTT = 0\<rparr>,
      \<lparr>Name = ''Online'', IP = ''62.210.0.1'', Country = ''France'', City = ''Paris'',
       Lat = 48.8566, Lon = 2.3522, AvgRTT = 0\<rparr>,
      \<lparr>Name = ''Free'', IP = ''212.27.48.10'', Country = ''France'', City = ''Paris'',
       Lat = 48.8566, Lon = 2.3522, AvgRTT = 0\<rparr>,
      \<lparr>Name = ''Orange'', IP = ''80.10.246.2'', Country = ''France'', City = ''Paris'',
       Lat = 48.8566, Lon = 2.3522, AvgRTT = 0\<rparr>,
      \<lparr>Name = ''OVH-Strasbourg'', IP = ''51.68.0.1'', Country = ''France'', City = ''Strasbourg'',
       Lat = 48.5734, Lon = 7.7521, AvgRTT = 0\<rparr>,
      \<lparr>Name = ''Google-UK'', IP = ''8.8.4.4'', Country = ''UK'', City = ''London'',
       Lat = 51.5074, Lon = - 0.1278, AvgRTT = 0\<rparr>,
      \<lparr>Name = ''Cloudflare-UK'', IP = ''1.0.0.1'', Country = ''UK'', City = ''London'',
       Lat = 51.5074, Lon = - 0.1278, AvgRTT = 0\<rparr>,
      \<lparr>Name = ''BBC'', IP = ''212.58.244.67'', Country = ''UK'', City = ''London'',
       Lat = 51.5074, Lon = - 0.1278, AvgRTT = 0\<rparr>,
      \<lparr>Name = ''DigitalOcean'', IP = ''178.62.0.1'', Country = ''UK'', City = ''London'',
       Lat = 51.5074, Lon = - 0.1278, AvgRTT = 0\<rparr>,
      \<lparr>Name = ''Linode'', IP = ''178.79.128.1'', Country = ''UK'', City = ''London'',
       Lat = 51.5074, Lon = - 0.1278, AvgRTT = 0\<rparr>]"

definition tie_results :: "Result list" where
  "tie_results =
     map (\<lambda>s. measurement 20000000 s 30000000) (take 12 catalog_head)
     @ [measurement 20000000 (catalog_head ! 12) 25000000]"

text \<open>
  A network whose library reports the greatest \<^verbatim>\<open>int64\<close> round-trip time for a
  server and \<open>-1\<close> ns for the target.
\<close>

definition wrapping_net :: network where
  "wrapping_net ip cnt =
     (if ip = ''203.0.113.7'' then Inr \<lparr>PacketsRecv = cnt, AvgRtt = - 1\<rparr>
      else Inr \<lparr>PacketsRecv = cnt, AvgRtt = 9223372036854775807\<rparr>)"


section \<open>Properties\<close>

subsection \<open>Durations\<close>

lemma sint_Millisecond: "sint Millisecond = 1000000"
  by (simp add: Millisecond_def)


lemma sdiv_nonneg: "0 \<le> a \<Longrightarrow> 0 < b \<Longrightarrow> (a::int) sdiv b = a div b"
  by (simp add: signed_divide_int_def sgn_if)


lemma sint_range64: "- (2^63) \<le> sint (d::64 word) \<and> sint d < 2^63"
  using sint_range_size[of d] by (simp add: word_size)

lemma sint_word_of_int64:
  "- (2^63) \<le> x \<Longrightarrow> x < 2^63 \<Longrightarrow> sint (word_of_int x :: 64 word) = x"
  by (simp add: sint_sbintrunc' signed_take_bit_int_eq_self)

lemma sint_duration_div_nonneg:
  assumes "0 \<le> sint d" "0 < sint k"
  shows "sint (duration_div d k) = sint d div sint k"
proof -
  have "sint d div sint k \<le> sint d" using assms
    by (cases "sint d = 0") (simp_all add: int_div_le_self)
  moreover have "0 \<le> sint d div sint k" using assms by (simp add: pos_imp_zdiv_nonneg_iff)
  ultimately have "sint (word_of_int (sint d div sint k) :: 64 word) = sint d div sint k"
    using sint_range64[of d] by (intro sint_word_of_int64) auto
  then show ?thesis using assms by (simp add: duration_div_def sdiv_nonneg)
qed







subsection \<open>The small run, evaluated\<close>

lemma example_target_rtt: "AvgPing example_net example_target 5 = Inr 20000000"
  by (simp add: AvgPing_def example_net_def example_target_def)

lemma example_pings:
  "AvgPing example_net (IP cloudflare_paris) 3 = Inr 30000000"
  "AvgPing example_net (IP google_uk) 3 = Inr 60000000"
  "AvgPing example_net (IP hetzner_frankfurt) 3 = Inr 100000000"
  "AvgPing example_net (IP ovh_paris) 3 = Inl NoResponse"
  by (simp_all add: AvgPing_def example_net_def cloudflare_paris_def google_uk_def
        hetzner_frankfurt_def ovh_paris_def)

lemma example_failed: "failed_probes example_net example_catalog = [ovh_paris]"
  by (simp add: failed_probes_def example_catalog_def example_pings)

lemma example_results_eq:
  "example_results =
     [measurement 20000000 cloudflare_paris 30000000,
      measurement 20000000 google_uk 60000000,
      measurement 20000000 hetzner_frankfurt 100000000]"
  by (simp add: example_results_def example_catalog_def example_pings)

lemma example_deltas:
  "Delta (measurement 20000000 cloudflare_paris 30000000) = 10000000"
  "Delta (measurement 20000000 google_uk 60000000) = 40000000"
  "Delta (measurement 20000000 hetzner_frankfurt 100000000) = 80000000"
  by (simp_all add: measurement_def Let_def word_sless_alt)

lemma ms_examples:
  "sint (Milliseconds 10000000) = 10"
  "sint (Milliseconds 40000000) = 40"
  "sint (Milliseconds 80000000) = 80"
  "sint (Milliseconds 10900000) = 10"
  "sint (Milliseconds 10100000) = 10"
  by (simp_all add: Milliseconds_def duration_div_def Millisecond_def signed_divide_int_def)

subsection \<open>The fan-out\<close>

lemma successful_append:
  "successful_measurements net t (xs @ ys) =
   successful_measurements net t xs @ successful_measurements net t ys"
  by (induction xs) (auto split: sum.splits)

lemma length_successful_failed:
  "length (successful_measurements net t ss) + length (failed_probes net ss) = length ss"
  by (induction ss) (auto simp: failed_probes_def split: sum.splits)

lemma goroutine_fields:
  "unlaunched (goroutine net t s \<sigma>) = unlaunched \<sigma>"
  "running (goroutine net t s \<sigma>) = running \<sigma>"
  "probed (goroutine net t s \<sigma>) = probed \<sigma> @ [IP s]"
  "progressCount (goroutine net t s \<sigma>) = progressCount \<sigma> + 1"
  "results (goroutine net t s \<sigma>) = results \<sigma> @ successful_measurements net t [s]"
  by (simp_all add: goroutine_def split: sum.splits)

lemma mset_remove_nth:
  assumes "i < length xs"
  shows "mset xs = add_mset (xs ! i) (mset (take i xs @ drop (Suc i) xs))"
proof -
  have "xs = take i xs @ xs ! i # drop (Suc i) xs" using assms by (rule id_take_nth_drop)
  then have "mset xs = mset (take i xs @ xs ! i # drop (Suc i) xs)" by simp
  then show ?thesis by simp
qed

lemma mset_successful_remove_nth:
  assumes "i < length xs"
  shows "mset (successful_measurements net t xs) =
         mset (successful_measurements net t [xs ! i]) +
         mset (successful_measurements net t (take i xs @ drop (Suc i) xs))"
proof -
  have "xs = take i xs @ [xs ! i] @ drop (Suc i) xs" using assms id_take_nth_drop by fastforce
  then have "successful_measurements net t xs =
      successful_measurements net t (take i xs) @ successful_measurements net t [xs ! i]
      @ successful_measurements net t (drop (Suc i) xs)"
    by (metis successful_append)
  then show ?thesis by (simp add: successful_append)
qed

lemma orch_inv_init: "orch_inv net t servers (orch_init servers)"
  by (simp add: orch_inv_def orch_init_def)

lemma orch_inv_step:
  assumes "orch_step net t \<sigma> \<sigma>'" "orch_inv net t servers \<sigma>"
  shows "orch_inv net t servers \<sigma>'"
  using assms
proof (induction rule: orch_step.induct)
  case (launch \<sigma> s rest)
  then show ?case
    by (simp add: orch_inv_def successful_append
          successful_append[of net t "[s]" rest, simplified] add.assoc)
next
  case (complete i \<sigma>)
  have a: "mset (running \<sigma>) = add_mset (running \<sigma> ! i) (mset (take i (running \<sigma>) @ drop (Suc i) (running \<sigma>)))"
    using complete(1) by (rule mset_remove_nth)
  have "mset (map IP (running \<sigma>)) = image_mset IP (mset (running \<sigma>))" by simp
  also have "\<dots> = add_mset (IP (running \<sigma> ! i)) (mset (map IP (take i (running \<sigma>) @ drop (Suc i) (running \<sigma>))))"
    by (subst a) simp
  finally have b: "mset (map IP (running \<sigma>)) =
      add_mset (IP (running \<sigma> ! i)) (mset (map IP (take i (running \<sigma>) @ drop (Suc i) (running \<sigma>))))" .
  have c: "length (running \<sigma>) = Suc (length (take i (running \<sigma>) @ drop (Suc i) (running \<sigma>)))"
    using complete(1) by simp
  show ?case
    using complete(2) mset_successful_remove_nth[OF complete(1), of net t]
    unfolding orch_inv_def goroutine_fields
    apply (simp only: b c orch_state.simps mset_append)
    apply (simp add: ac_simps)
    done
qed


lemma orch_inv_steps:
  assumes "(orch_step net t)\<^sup>*\<^sup>* \<sigma> \<sigma>'" "orch_inv net t servers \<sigma>"
  shows "orch_inv net t servers \<sigma>'"
  using assms by (induction rule: rtranclp_induct) (auto intro: orch_inv_step)

lemma fan_out_results:
  assumes "fan_out net t servers \<sigma>"
  shows "mset (results \<sigma>) = mset (successful_measurements net t servers)"
    and "mset (probed \<sigma>) = mset (map IP servers)"
    and "progressCount \<sigma> = int (length servers)"
proof -
  have "orch_inv net t servers \<sigma>"
    using assms orch_inv_steps[OF _ orch_inv_init] by (simp add: fan_out_def)
  moreover have "unlaunched \<sigma> = []" "running \<sigma> = []" using assms by (simp_all add: fan_out_def)
  ultimately show "mset (results \<sigma>) = mset (successful_measurements net t servers)"
    and "mset (probed \<sigma>) = mset (map IP servers)"
    and "progressCount \<sigma> = int (length servers)"
    by (simp_all add: orch_inv_def)
qed

lemma fan_out_length:
  assumes "fan_out net t servers \<sigma>"
  shows "length (results \<sigma>) = length servers - length (failed_probes net servers)"
proof -
  have "length (results \<sigma>) = length (successful_measurements net t servers)"
    using fan_out_results(1)[OF assms] by (metis size_mset)
  then show ?thesis using length_successful_failed[of net t servers] by simp
qed

text \<open>A schedule that always exists: every goroutine completes before the next is launched.\<close>

lemma sequential_schedule:
  assumes "unlaunched \<sigma> = ss" "running \<sigma> = []"
  shows "\<exists>\<sigma>'. (orch_step net t)\<^sup>*\<^sup>* \<sigma> \<sigma>' \<and> unlaunched \<sigma>' = [] \<and> running \<sigma>' = []"
  using assms
proof (induction ss arbitrary: \<sigma>)
  case Nil
  then show ?case by blast
next
  case (Cons s rest)
  define \<sigma>1 where "\<sigma>1 = \<sigma>\<lparr>unlaunched := rest, running := running \<sigma> @ [s]\<rparr>"
  define \<sigma>2 where "\<sigma>2 = goroutine net t (running \<sigma>1 ! 0)
      (\<sigma>1\<lparr>running := take 0 (running \<sigma>1) @ drop (Suc 0) (running \<sigma>1)\<rparr>)"
  have s1: "orch_step net t \<sigma> \<sigma>1"
    unfolding \<sigma>1_def using Cons.prems(1) by (rule orch_step.launch)
  have "0 < length (running \<sigma>1)" by (simp add: \<sigma>1_def)
  then have s2: "orch_step net t \<sigma>1 \<sigma>2"
    unfolding \<sigma>2_def by (rule orch_step.complete)
  have "unlaunched \<sigma>2 = rest" "running \<sigma>2 = []"
    using Cons.prems(2) by (simp_all add: \<sigma>2_def \<sigma>1_def goroutine_fields)
  then obtain \<sigma>' where "(orch_step net t)\<^sup>*\<^sup>* \<sigma>2 \<sigma>'" "unlaunched \<sigma>' = []" "running \<sigma>' = []"
    using Cons.IH by blast
  then show ?case using s1 s2 by (meson converse_rtranclp_into_rtranclp)
qed

lemma fan_out_exists: "\<exists>\<sigma>. fan_out net t servers \<sigma>"
  using sequential_schedule[of "orch_init servers" servers net t]
  by (simp add: fan_out_def orch_init_def)

lemma sort_Slice_exists:
  fixes key :: "'a \<Rightarrow> int"
  assumes "\<And>a b. lessFn a b \<longleftrightarrow> key a < key b"
  shows "sort_Slice lessFn xs (sort_key key xs)"
proof -
  have "sorted (map key (sort_key key xs))" by simp
  then have "sorted_wrt (\<lambda>a b. key a \<le> key b) (sort_key key xs)"
    by (simp add: sorted_map)
  then have "sorted_wrt (\<lambda>a b. \<not> lessFn b a) (sort_key key xs)"
    by (simp add: assms not_less)
  then show ?thesis by (simp add: sort_Slice_def)
qed

lemma rank_stable: "rank rs (sort_key (\<lambda>r. sint (Delta r)) rs)"
  unfolding rank_def
  by (rule sort_Slice_exists) (simp add: delta_less_def word_sless_alt)

lemma map_range_exists:
  assumes "finite (dom m)"
  shows "\<exists>countries. map_range m countries"
proof -
  from finite_distinct_list[OF assms]
  obtain ks where ks: "set ks = dom m" "distinct ks" by (elim exE conjE)
  define kvs where "kvs = map (\<lambda>k. (k, the (m k))) ks"
  have fst: "map fst kvs = ks" by (simp add: kvs_def comp_def)
  have "map_of kvs k = m k" for k
  proof (cases "m k")
    case None
    then have "k \<notin> set ks" unfolding ks(1) by (simp add: domIff)
    then show ?thesis unfolding kvs_def by (simp add: map_of_map_restrict None)
  next
    case (Some v)
    then have "k \<in> set ks" unfolding ks(1) by (simp add: domIff)
    then show ?thesis unfolding kvs_def by (simp add: map_of_map_restrict Some)
  qed
  then have "map_of kvs = m" by (rule ext)
  then have "map_range m kvs" unfolding map_range_def fst using ks(2) by simp
  then show ?thesis by (rule exI)
qed

lemma dom_countryStats:
  "dom (countryStats m rs) = dom m \<union> set (map (\<lambda>r. Country (Server r)) rs)"
  by (induction rs arbitrary: m) auto

lemma displayStatistics_exists: "\<exists>stats. displayStatistics rs stats"
proof (cases "rs = []")
  case True
  then show ?thesis using displayStatistics.no_results by blast
next
  case False
  have "finite (dom (countryStats Map.empty rs))" by (simp add: dom_countryStats)
  then obtain countries where c: "map_range (countryStats Map.empty rs) countries"
    using map_range_exists by blast
  have "sort_Slice count_greater countries (sort_key (\<lambda>c. - snd c) countries)"
    by (rule sort_Slice_exists) (auto simp: count_greater_def)
  then show ?thesis using displayStatistics.statistics[OF False c] by blast
qed

lemma main_run_analysed_exists:
  assumes "AvgPing net targetIP 5 = Inr targetRTT"
      and "length (failed_probes net servers) < length servers"
  shows "\<exists>ranked tri stats. main_run net targetIP servers (Analysed ranked tri stats)"
proof -
  obtain \<sigma> where f: "fan_out net targetRTT servers \<sigma>" using fan_out_exists by blast
  have "length (results \<sigma>) = length servers - length (failed_probes net servers)"
    using f by (rule fan_out_length)
  then have ne: "results \<sigma> \<noteq> []" using assms(2) by auto
  obtain ranked where r: "rank (results \<sigma>) ranked" using rank_stable by blast
  obtain stats where s: "displayStatistics ranked stats" using displayStatistics_exists by blast
  show ?thesis using main_run.analysed[OF assms(1) f ne r s] by blast
qed


text \<open>
  Claim C1 (partial-failure tolerance). When the probe of the target succeeds and
  exactly \<open>K < N\<close> of the \<open>N\<close> reference probes fail, a run exists and every run
  ends analysed, never aborted, with exactly \<open>N - K\<close> ranked Results: the Results of
  the successful probes, one each. Whatever the schedule, the fan-out collects
  \<open>N - K\<close> Results and probes every server of the catalog once, with no retry.
\<close>

theorem partial_failure_tolerance:
  assumes "AvgPing net targetIP 5 = Inr targetRTT"
      and "K = length (failed_probes net servers)"
      and "K < length servers"
  shows "(\<exists>out. main_run net targetIP servers out) \<and>
         (\<forall>out. main_run net targetIP servers out \<longrightarrow>
            (\<exists>ranked tri stats. out = Analysed ranked tri stats \<and>
               length ranked = length servers - K \<and>
               mset ranked = mset (successful_measurements net targetRTT servers))) \<and>
         (\<forall>\<sigma>. fan_out net targetRTT servers \<sigma> \<longrightarrow>
            length (results \<sigma>) = length servers - K \<and>
            mset (probed \<sigma>) = mset (map IP servers))"
proof (intro conjI allI impI)
  show "\<exists>out. main_run net targetIP servers out"
    using main_run_analysed_exists[OF assms(1)] assms(2,3) by blast
next
  fix out
  assume run: "main_run net targetIP servers out"
  then show "\<exists>ranked tri stats. out = Analysed ranked tri stats \<and>
               length ranked = length servers - K \<and>
               mset ranked = mset (successful_measurements net targetRTT servers)"
  proof (cases rule: main_run.cases)
    case (target_error err)
    then show ?thesis using assms(1) by simp
  next
    case (no_response t \<sigma>)
    then have "t = targetRTT" using assms(1) by simp
    then have "length (results \<sigma>) = length servers - K"
      using no_response(3) fan_out_length assms(2) by blast
    then show ?thesis using no_response(4) assms(3) by simp
  next
    case (analysed t \<sigma> ranked stats)
    then have t: "t = targetRTT" using assms(1) by simp
    have m: "mset ranked = mset (results \<sigma>)"
      using analysed(5) by (simp add: rank_def sort_Slice_def)
    then have "length ranked = length (results \<sigma>)" by (metis size_mset)
    then have "length ranked = length servers - K"
      using analysed(3) fan_out_length assms(2) t by metis
    moreover have "mset ranked = mset (successful_measurements net targetRTT servers)"
      using m fan_out_results(1)[OF analysed(3)] t by simp
    ultimately show ?thesis using analysed(1) by blast
  qed
next
  fix \<sigma>
  assume "fan_out net targetRTT servers \<sigma>"
  then show "length (results \<sigma>) = length servers - K"
    using fan_out_length assms(2) by blast
next
  fix \<sigma>
  assume "fan_out net targetRTT servers \<sigma>"
  then show "mset (probed \<sigma>) = mset (map IP servers)"
    by (rule fan_out_results(2))
qed

theorem partial_failure_tolerance_witness:
  "AvgPing example_net example_target 5 = Inr 20000000 \<and>
   (1::nat) = length (failed_probes example_net example_catalog) \<and>
   (1::nat) < length example_catalog \<and>
   (\<exists>ranked tri stats.
      main_run example_net example_target example_catalog (Analysed ranked tri stats) \<and>
      length ranked = 3)"
proof -
  have k: "(1::nat) = length (failed_probes example_net example_catalog)"
    by (simp add: example_failed)
  have n: "(1::nat) < length example_catalog"
    by (simp add: example_catalog_def)
  note t = partial_failure_tolerance[OF example_target_rtt k n]
  from t obtain out where run: "main_run example_net example_target example_catalog out"
    by blast
  with t obtain ranked tri stats where
    "out = Analysed ranked tri stats" "length ranked = length example_catalog - 1"
    by blast
  with run have "main_run example_net example_target example_catalog (Analysed ranked tri stats)
      \<and> length ranked = 3"
    by (simp add: example_catalog_def)
  then show ?thesis using example_target_rtt k n by blast
qed

subsection \<open>Measurements\<close>








lemma wrapping_target: "AvgPing wrapping_net example_target 5 = Inr (- 1)"
  by (simp add: AvgPing_def wrapping_net_def example_target_def)

lemma wrapping_probe: "AvgPing wrapping_net (IP cloudflare_paris) 3 = Inr 9223372036854775807"
  by (simp add: AvgPing_def wrapping_net_def cloudflare_paris_def)

lemma wrapping_delta:
  "Delta (measurement (- 1) s 9223372036854775807) = - 9223372036854775808"
  by (simp add: measurement_def Let_def word_sless_alt)

lemma sint_min64: "sint (- 9223372036854775808 :: 64 word) = - 9223372036854775808"
  by simp

lemma wrapping_distance:
  "Distance (measurement (- 1) s 9223372036854775807) < 0"
  apply (simp add: measurement_def Let_def word_sless_alt rttToDistance_def Seconds_def
      duration_div_def duration_rem_def Second_def signed_divide_int_def signed_modulo_int_def
      fiberSpeed_def speedOfLight_def del: of_int_sint)
  done


lemma wrapping_fan_out:
  "fan_out wrapping_net (- 1) [cloudflare_paris]
     \<lparr>unlaunched = [], running = [],
      results = [measurement (- 1) cloudflare_paris 9223372036854775807],
      progressCount = 1, probed = [IP cloudflare_paris]\<rparr>"
proof -
  define \<sigma>0 where "\<sigma>0 = orch_init [cloudflare_paris]"
  define \<sigma>1 where "\<sigma>1 = \<sigma>0\<lparr>unlaunched := [], running := running \<sigma>0 @ [cloudflare_paris]\<rparr>"
  define \<sigma>2 where "\<sigma>2 = goroutine wrapping_net (- 1) (running \<sigma>1 ! 0)
      (\<sigma>1\<lparr>running := take 0 (running \<sigma>1) @ drop (Suc 0) (running \<sigma>1)\<rparr>)"
  have "unlaunched \<sigma>0 = cloudflare_paris # []" by (simp add: \<sigma>0_def orch_init_def)
  then have s1: "orch_step wrapping_net (- 1) \<sigma>0 \<sigma>1"
    unfolding \<sigma>1_def by (rule orch_step.launch)
  have "0 < length (running \<sigma>1)" by (simp add: \<sigma>1_def)
  then have s2: "orch_step wrapping_net (- 1) \<sigma>1 \<sigma>2"
    unfolding \<sigma>2_def by (rule orch_step.complete)
  have "\<sigma>2 = \<lparr>unlaunched = [], running = [],
      results = [measurement (- 1) cloudflare_paris 9223372036854775807],
      progressCount = 1, probed = [IP cloudflare_paris]\<rparr>"
    by (simp add: \<sigma>2_def \<sigma>1_def \<sigma>0_def orch_init_def goroutine_def wrapping_probe)
  moreover have "(orch_step wrapping_net (- 1))\<^sup>*\<^sup>* \<sigma>0 \<sigma>2"
    using s1 s2 by (meson rtranclp.rtrancl_into_rtrancl rtranclp.rtrancl_refl)
  ultimately show ?thesis by (simp add: fan_out_def \<sigma>0_def)
qed

text \<open>
  Without the condition on the library the invariant fails, for the code checks
  neither round-trip time. With a server at the greatest \<^verbatim>\<open>int64\<close> and the target
  at \<open>-1\<close> ns the difference wraps to the least \<^verbatim>\<open>int64\<close>, which is its own
  negation: the run is analysed, and its one Result has a negative delta and a
  negative distance.
\<close>

theorem measurement_invariants_counterexample:
  "main_run wrapping_net example_target [cloudflare_paris]
     (Analysed [measurement (- 1) cloudflare_paris 9223372036854775807] NotEnoughServers
        (Some \<lparr>countryLines = [(''France'', 1)], avgRTT = 9223372036854775807,
               totalServers = 1\<rparr>)) \<and>
   Delta (measurement (- 1) cloudflare_paris 9223372036854775807) <s 0 \<and>
   Distance (measurement (- 1) cloudflare_paris 9223372036854775807) < 0"
proof -
  define r where "r = measurement (- 1) cloudflare_paris 9223372036854775807"
  have rk: "rank [r] [r]" by (simp add: rank_def sort_Slice_def)
  have c: "Country (Server r) = ''France''" "AvgRTT (Server r) = 9223372036854775807"
    by (simp_all add: r_def measurement_def Let_def cloudflare_paris_def)
  have "map_of [(''France'', 1::int)] = countryStats Map.empty [r]"
    by (rule ext) (simp add: c)
  then have m: "map_range (countryStats Map.empty [r]) [(''France'', 1)]"
    by (simp add: map_range_def)
  have s: "sort_Slice count_greater [(''France'', 1::int)] [(''France'', 1)]"
    by (simp add: sort_Slice_def)
  have a: "duration_div (AvgRTT (Server r)) 1 = 9223372036854775807"
    by (simp add: c duration_div_def)
  have "displayStatistics [r]
     (Some \<lparr>countryLines = take 10 [(''France'', 1)],
            avgRTT = duration_div (totalRTT 0 [r]) (word_of_nat (length [r])),
            totalServers = int (length [r])\<rparr>)"
    by (rule displayStatistics.statistics[OF _ m s]) simp
  then have st: "displayStatistics [r]
     (Some \<lparr>countryLines = [(''France'', 1)], avgRTT = 9223372036854775807, totalServers = 1\<rparr>)"
    by (simp add: a)
  have t: "displayTriangulation [r] = NotEnoughServers" by (simp add: displayTriangulation_def)
  have f: "fan_out wrapping_net (- 1) [cloudflare_paris]
     \<lparr>unlaunched = [], running = [], results = [r], progressCount = 1,
      probed = [IP cloudflare_paris]\<rparr>"
    unfolding r_def by (rule wrapping_fan_out)
  have "main_run wrapping_net example_target [cloudflare_paris]
      (Analysed [r] (displayTriangulation [r])
        (Some \<lparr>countryLines = [(''France'', 1)], avgRTT = 9223372036854775807, totalServers = 1\<rparr>))"
    by (rule main_run.analysed[OF wrapping_target f _ _ st]) (simp_all add: rk)
  then have "main_run wrapping_net example_target [cloudflare_paris]
      (Analysed [r] NotEnoughServers
        (Some \<lparr>countryLines = [(''France'', 1)], avgRTT = 9223372036854775807, totalServers = 1\<rparr>))"
    by (simp only: t)
  moreover have "Delta r <s 0"
    unfolding r_def by (simp add: wrapping_delta word_sless_alt)
  moreover have "Distance r < 0"
    unfolding r_def by (rule wrapping_distance)
  ultimately show ?thesis unfolding r_def by (intro conjI)
qed

subsection \<open>Multilateration\<close>

lemma multilateral_loop_eq:
  assumes "i \<le> n" "n \<le> length rs"
  shows "multilateral_loop rs (int n) (int i) (a, b, c) =
     (if \<exists>r\<in>set (drop i (take n rs)). delta_ms r + 1 = 0 then Inl NotANumber
      else Inr (a + (\<Sum>r\<leftarrow>drop i (take n rs). Lat (Server r) * delta_weight r),
                b + (\<Sum>r\<leftarrow>drop i (take n rs). Lon (Server r) * delta_weight r),
                c + (\<Sum>r\<leftarrow>drop i (take n rs). delta_weight r)))"
  using assms
proof (induction "n - i" arbitrary: i a b c)
  case 0
  then have "i = n" by simp
  then show ?case by (simp add: multilateral_loop.simps[of rs "int n" "int n"])
next
  case (Suc k)
  then have lt: "i < n" and k: "k = n - Suc i" by simp_all
  have d: "drop i (take n rs) = rs ! i # drop (Suc i) (take n rs)"
    using lt Suc.prems by (simp add: Cons_nth_drop_Suc[symmetric])
  have ih: "\<And>a b c. multilateral_loop rs (int n) (int (Suc i)) (a, b, c) =
     (if \<exists>r\<in>set (drop (Suc i) (take n rs)). delta_ms r + 1 = 0 then Inl NotANumber
      else Inr (a + (\<Sum>r\<leftarrow>drop (Suc i) (take n rs). Lat (Server r) * delta_weight r),
                b + (\<Sum>r\<leftarrow>drop (Suc i) (take n rs). Lon (Server r) * delta_weight r),
                c + (\<Sum>r\<leftarrow>drop (Suc i) (take n rs). delta_weight r)))"
    using Suc.hyps(1)[of "Suc i"] k lt Suc.prems by simp
  have s: "int i + 1 = int (Suc i)" by simp
  show ?case
    apply (subst multilateral_loop.simps)
    using lt Suc.prems
    apply (simp only: s ih d Let_def)
    apply (simp add: add.assoc)
    done
qed

lemma weighted_mean_map:
  "weighted_mean (map (\<lambda>r. (w r, v r)) xs) = (\<Sum>r\<leftarrow>xs. v r * w r) / (\<Sum>r\<leftarrow>xs. w r)"
  by (simp add: weighted_mean_def comp_def)

lemma multilateral_refines:
  assumes "3 \<le> length rs"
  shows "multilateralTriangulation rs N = multilateration_spec rs N"
proof -
  define n where "n = nat (min N (int (length rs)))"
  have n_le: "n \<le> length rs" by (simp add: n_def)
  show ?thesis
  proof (cases "0 \<le> N")
    case True
    then have clamp: "(if N > int (length rs) then int (length rs) else N) = int n"
      by (simp add: n_def min_def)
    show ?thesis
      using assms multilateral_loop_eq[of 0 n rs 0 0 0] n_le
      unfolding multilateralTriangulation_def multilateration_spec_def top_entries_def
        n_def[symmetric] Let_def clamp
      by (simp add: weighted_mean_map)
  next
    case False
    then have n0: "n = 0" by (simp add: n_def)
    have clamp: "(if N > int (length rs) then int (length rs) else N) = N"
      using False by simp
    have loop: "multilateral_loop rs N 0 (0, 0, 0) = Inr (0, 0, 0)"
      using False by (simp add: multilateral_loop.simps[of rs N 0])
    show ?thesis
      using assms
      unfolding multilateralTriangulation_def multilateration_spec_def top_entries_def
        n_def[symmetric] Let_def clamp loop n0
      by simp
  qed
qed

lemma weighted_sum_bounds:
  assumes "\<forall>r\<in>set xs. 0 < w r" "\<forall>r\<in>set xs. lo \<le> v r \<and> v r \<le> hi"
  shows "lo * (\<Sum>r\<leftarrow>xs. w r) \<le> (\<Sum>r\<leftarrow>xs. v r * w r) \<and>
         (\<Sum>r\<leftarrow>xs. v r * w r) \<le> hi * (\<Sum>r\<leftarrow>xs. (w r :: real))"
  using assms
proof (induction xs)
  case Nil
  then show ?case by simp
next
  case (Cons x xs)
  have a: "lo * w x \<le> v x * w x" "v x * w x \<le> hi * w x"
    using Cons.prems by (simp_all add: mult_right_mono)
  have b: "lo * (\<Sum>r\<leftarrow>xs. w r) \<le> (\<Sum>r\<leftarrow>xs. v r * w r)"
      "(\<Sum>r\<leftarrow>xs. v r * w r) \<le> hi * (\<Sum>r\<leftarrow>xs. w r)"
    using Cons by simp_all
  show ?case using a b by (simp add: distrib_left add_mono)
qed

lemma weights_sum_pos:
  assumes "\<forall>r\<in>set xs. 0 < w r" "xs \<noteq> []"
  shows "0 < (\<Sum>r\<leftarrow>xs. (w r :: real))"
  using assms
proof (induction xs)
  case Nil
  then show ?case by simp
next
  case (Cons x xs)
  show ?case
  proof (cases "xs = []")
    case True
    then show ?thesis using Cons.prems by simp
  next
    case False
    then have "0 < (\<Sum>r\<leftarrow>xs. w r)" using Cons by simp
    then show ?thesis using Cons.prems by (simp add: add_pos_pos)
  qed
qed

subsection \<open>Trilateration\<close>








subsection \<open>Weights\<close>

lemma distance_weight_antimono:
  assumes "- 1 < d'" "d' < d"
  shows "distance_weight d < distance_weight d'"
  using assms by (simp add: distance_weight_def frac_less2)

lemma distance_weight_pos: "0 \<le> d \<Longrightarrow> 0 < distance_weight d"
  by (simp add: distance_weight_def)

lemma share_mono:
  fixes w w' rest :: real
  assumes "0 < w" "w < w'" "0 < rest"
  shows "w / (w + rest) < w' / (w' + rest)"
proof -
  have "w * (w' + rest) < w' * (w + rest)" using assms by (simp add: algebra_simps)
  then show ?thesis using assms by (simp add: divide_less_cancel frac_less_eq field_simps)
qed

lemma sint_Milliseconds_nonneg:
  assumes "0 \<le> sint d"
  shows "sint (Milliseconds d) = sint d div 1000000"
  using sint_duration_div_nonneg[OF assms, of Millisecond]
  by (simp add: Milliseconds_def sint_Millisecond)

lemma delta_ms_nonneg:
  assumes "0 \<le>s Delta r"
  shows "delta_ms r = real_of_int (sint (Delta r) div 1000000)" and "0 \<le> delta_ms r"
proof -
  have a: "0 \<le> sint (Delta r)" using assms by (simp add: word_sle_eq)
  show "delta_ms r = real_of_int (sint (Delta r) div 1000000)"
    unfolding delta_ms_def sint_Milliseconds_nonneg[OF a] ..
  then show "0 \<le> delta_ms r" using a by (simp add: pos_imp_zdiv_nonneg_iff)
qed

lemma delta_weight_pos: "0 \<le>s Delta r \<Longrightarrow> 0 < delta_weight r"
  using delta_ms_nonneg(2)[of r] by (simp add: delta_weight_def)

lemma delta_weight_less_iff:
  assumes "0 \<le>s Delta r'" "0 \<le>s Delta r"
  shows "delta_weight r < delta_weight r' \<longleftrightarrow> Milliseconds (Delta r') <s Milliseconds (Delta r)"
proof -
  have a: "0 \<le> delta_ms r'" "0 \<le> delta_ms r" using assms delta_ms_nonneg(2) by blast+
  have "delta_weight r < delta_weight r' \<longleftrightarrow> delta_ms r' < delta_ms r"
    using a by (simp add: delta_weight_def frac_less_eq field_simps)
  also have "\<dots> \<longleftrightarrow> sint (Milliseconds (Delta r')) < sint (Milliseconds (Delta r))"
    by (simp add: delta_ms_def del: of_int_sint)
  finally show ?thesis by (simp add: word_sless_alt)
qed

lemma delta_weight_antimono:
  assumes "0 \<le>s Delta r'" "Delta r' \<le>s Delta r"
  shows "delta_weight r \<le> delta_weight r'"
proof -
  have a: "0 \<le> sint (Delta r')" "sint (Delta r') \<le> sint (Delta r)"
    using assms by (simp_all add: word_sle_eq)
  then have r: "0 \<le>s Delta r" by (simp add: word_sle_eq)
  have "sint (Delta r') div 1000000 \<le> sint (Delta r) div 1000000"
    using a(2) by (simp add: zdiv_mono1)
  then have "delta_ms r' \<le> delta_ms r"
    unfolding delta_ms_nonneg(1)[OF assms(1)] delta_ms_nonneg(1)[OF r] by simp
  then show ?thesis
    using delta_ms_nonneg(2)[OF assms(1)] by (simp add: delta_weight_def frac_le)
qed

lemma delta_example_109:
  "Delta (measurement 20000000 cloudflare_paris 30900000) = 10900000"
  "Delta (measurement 20000000 cloudflare_paris 30100000) = 10100000"
  by (simp_all add: measurement_def Let_def word_sless_alt)

lemma delta_weight_example_109:
  "delta_weight (measurement 20000000 cloudflare_paris 30900000) = 1 / 11"
  "delta_weight (measurement 20000000 cloudflare_paris 30100000) = 1 / 11"
  by (simp_all add: delta_weight_def delta_ms_def delta_example_109 ms_examples del: of_int_sint)

lemma delta_weight_examples:
  "delta_weight (measurement 20000000 cloudflare_paris 30000000) = 1 / 11"
  "delta_weight (measurement 20000000 google_uk 60000000) = 1 / 41"
  "delta_weight (measurement 20000000 hetzner_frankfurt 100000000) = 1 / 81"
  by (simp_all add: delta_weight_def delta_ms_def example_deltas ms_examples del: of_int_sint)

text \<open>
  Claim C7 (weight monotonicity), as the code has it. In the trilateration a strictly
  smaller distance (distances are not negative) gives a strictly larger weight, and a
  strictly larger share of the total weight while the other two distances stay fixed.
  In the multilateration a smaller delta (deltas are not negative) never gives a
  smaller weight, and gives a strictly larger one exactly when the delta loses a
  whole millisecond: the weight reads \<^verbatim>\<open>Delta.Milliseconds()\<close>.
\<close>

theorem weight_monotonicity:
  "(0 \<le> d' \<and> d' < d \<longrightarrow>
      distance_weight d < distance_weight d' \<and>
      (0 \<le> d2 \<and> 0 \<le> d3 \<longrightarrow>
         distance_weight d / (distance_weight d + (distance_weight d2 + distance_weight d3))
         < distance_weight d' / (distance_weight d' + (distance_weight d2 + distance_weight d3)))) \<and>
   (0 \<le>s Delta r' \<and> Delta r' <s Delta r \<longrightarrow>
      delta_weight r \<le> delta_weight r' \<and>
      (delta_weight r < delta_weight r' \<longleftrightarrow> Milliseconds (Delta r') <s Milliseconds (Delta r)))"
proof (intro conjI impI)
  assume a: "0 \<le> d' \<and> d' < d"
  then show w: "distance_weight d < distance_weight d'"
    by (intro distance_weight_antimono) simp_all
  assume "0 \<le> d2 \<and> 0 \<le> d3"
  then have "0 < distance_weight d2 + distance_weight d3"
    by (simp add: distance_weight_pos add_pos_pos)
  moreover have "0 < distance_weight d" using a by (simp add: distance_weight_pos)
  ultimately show "distance_weight d / (distance_weight d + (distance_weight d2 + distance_weight d3))
         < distance_weight d' / (distance_weight d' + (distance_weight d2 + distance_weight d3))"
    using w by (intro share_mono)
next
  assume a: "0 \<le>s Delta r' \<and> Delta r' <s Delta r"
  then have le: "Delta r' \<le>s Delta r" by (simp add: word_sle_eq word_sless_alt)
  then have r: "0 \<le>s Delta r" using a by (simp add: word_sle_eq)
  show "delta_weight r \<le> delta_weight r'" using a le by (intro delta_weight_antimono) simp_all
  show "delta_weight r < delta_weight r' \<longleftrightarrow> Milliseconds (Delta r') <s Milliseconds (Delta r)"
    using a r by (intro delta_weight_less_iff) simp_all
qed

theorem weight_monotonicity_witness:
  "(0::real) \<le> 500 \<and> (500::real) < 1000 \<and> distance_weight 1000 < distance_weight 500 \<and>
   (0::real) \<le> 2000 \<and>
   distance_weight 1000 / (distance_weight 1000 + (distance_weight 2000 + distance_weight 2000))
     < distance_weight 500 / (distance_weight 500 + (distance_weight 2000 + distance_weight 2000)) \<and>
   0 \<le>s Delta (measurement 20000000 cloudflare_paris 30000000) \<and>
   Delta (measurement 20000000 cloudflare_paris 30000000)
     <s Delta (measurement 20000000 google_uk 60000000) \<and>
   delta_weight (measurement 20000000 google_uk 60000000)
     < delta_weight (measurement 20000000 cloudflare_paris 30000000)"
proof -
  have a: "(0::real) \<le> 500 \<and> (500::real) < 1000" "(0::real) \<le> 2000 \<and> (0::real) \<le> 2000" by simp_all
  have b: "0 \<le>s Delta (measurement 20000000 cloudflare_paris 30000000) \<and>
      Delta (measurement 20000000 cloudflare_paris 30000000)
        <s Delta (measurement 20000000 google_uk 60000000)"
    by (simp add: example_deltas word_sle_eq word_sless_alt)
  have c: "Milliseconds (Delta (measurement 20000000 cloudflare_paris 30000000))
      <s Milliseconds (Delta (measurement 20000000 google_uk 60000000))"
    by (simp add: example_deltas word_sless_alt ms_examples)
  show ?thesis
    using weight_monotonicity[of 500 1000 2000 2000
        "measurement 20000000 cloudflare_paris 30000000"
        "measurement 20000000 google_uk 60000000"] a b c
    by blast
qed

text \<open>
  The claim as stated fails for the multilateration: a delta of 10.1 ms is strictly
  below one of 10.9 ms, and both weigh \<open>1/11\<close>.
\<close>

theorem weight_monotonicity_counterexample:
  "Delta (measurement 20000000 cloudflare_paris 30100000)
     <s Delta (measurement 20000000 cloudflare_paris 30900000) \<and>
   \<not> delta_weight (measurement 20000000 cloudflare_paris 30900000)
       < delta_weight (measurement 20000000 cloudflare_paris 30100000)"
  by (simp add: delta_weight_example_109 delta_example_109 word_sless_alt)

subsection \<open>The multilateration estimate\<close>

lemma example_results_length: "length example_results = 3"
  by (simp add: example_results_eq)

lemma example_servers:
  "Server (measurement t s avg) = s\<lparr>AvgRTT := avg\<rparr>"
  by (simp add: measurement_def Let_def)

lemma example_coordinates:
  "Lat (Server (measurement 20000000 cloudflare_paris 30000000)) = 48.8566"
  "Lon (Server (measurement 20000000 cloudflare_paris 30000000)) = 2.3522"
  "Lat (Server (measurement 20000000 google_uk 60000000)) = 51.5074"
  "Lon (Server (measurement 20000000 google_uk 60000000)) = - 0.1278"
  "Lat (Server (measurement 20000000 hetzner_frankfurt 100000000)) = 50.1109"
  "Lon (Server (measurement 20000000 hetzner_frankfurt 100000000)) = 8.6821"
  by (simp_all add: example_servers cloudflare_paris_def google_uk_def hetzner_frankfurt_def)

lemma delta_ms_examples:
  "delta_ms (measurement 20000000 cloudflare_paris 30000000) = 10"
  "delta_ms (measurement 20000000 google_uk 60000000) = 40"
  "delta_ms (measurement 20000000 hetzner_frankfurt 100000000) = 80"
  by (simp_all add: delta_ms_def example_deltas ms_examples del: of_int_sint)

lemma multilateral_example:
  "multilateralTriangulation example_results 2 =
     Inr \<lparr>LocLat = (48.8566 * (1 / 11) + 51.5074 * (1 / 41)) / (1 / 11 + 1 / 41),
          LocLon = (2.3522 * (1 / 11) + (- 0.1278) * (1 / 41)) / (1 / 11 + 1 / 41)\<rparr>"
proof -
  have "multilateralTriangulation example_results 2 = multilateration_spec example_results 2"
    by (rule multilateral_refines) (simp add: example_results_length)
  moreover have top: "top_entries example_results 2 =
     [measurement 20000000 cloudflare_paris 30000000, measurement 20000000 google_uk 60000000]"
    by (simp add: top_entries_def example_results_eq)
  have "multilateration_spec example_results 2 =
     Inr \<lparr>LocLat = (48.8566 * (1 / 11) + 51.5074 * (1 / 41)) / (1 / 11 + 1 / 41),
          LocLon = (2.3522 * (1 / 11) + (- 0.1278) * (1 / 41)) / (1 / 11 + 1 / 41)\<rparr>"
    unfolding multilateration_spec_def Let_def top weighted_mean_def
    by (simp add: delta_weight_examples delta_ms_examples example_coordinates)
  ultimately show ?thesis by simp
qed

text \<open>
  Claim C6 (multilateration). On a list of at least three Results and for every
  requested count, \<open>multilateralTriangulation\<close> is the contract in the words of
  the specification: the count clamped to the length, the weight
  \<open>1 / (delta_in_ms + 1)\<close> for each of the top entries, and the weighted arithmetic
  mean of their latitudes and of their longitudes, with no Cartesian projection. In
  the small run the two best entries, at 10 ms and 40 ms, weigh \<open>1/11\<close> and \<open>1/41\<close>,
  and the estimate for a count of 2 is the mean of Paris and London with these weights.
\<close>

theorem multilateral_weighted_mean:
  "(3 \<le> length rs \<longrightarrow> multilateralTriangulation rs N = multilateration_spec rs N) \<and>
   delta_weight (example_results ! 0) = 1 / 11 \<and>
   delta_weight (example_results ! 1) = 1 / 41 \<and>
   multilateralTriangulation example_results 2 =
     Inr \<lparr>LocLat = (48.8566 * (1 / 11) + 51.5074 * (1 / 41)) / (1 / 11 + 1 / 41),
          LocLon = (2.3522 * (1 / 11) + (- 0.1278) * (1 / 41)) / (1 / 11 + 1 / 41)\<rparr>"
  using multilateral_refines[of rs N] multilateral_example
  by (simp add: example_results_eq delta_weight_examples)

theorem multilateral_weighted_mean_witness:
  "3 \<le> length example_results \<and>
   multilateralTriangulation example_results 10 = multilateration_spec example_results 10"
  using multilateral_weighted_mean[of example_results 10]
  by (simp add: example_results_length)

lemma top_entries_subset: "set (top_entries rs N) \<subseteq> set rs"
  by (auto simp: top_entries_def dest: in_set_takeD)

lemma top_entries_nonempty: "rs \<noteq> [] \<Longrightarrow> 1 \<le> N \<Longrightarrow> top_entries rs N \<noteq> []"
  by (cases rs) (auto simp: top_entries_def min_def)


text \<open>
  On the reals the estimate lies in the hull of the top entries itself.
\<close>

lemma multilateral_hull_exact:
  assumes "3 \<le> length rs" and "\<forall>r\<in>set rs. 0 \<le>s Delta r" and "1 \<le> N"
  shows "(\<forall>r\<in>set (top_entries rs N). 0 < delta_weight r) \<and>
         0 < (\<Sum>r\<leftarrow>top_entries rs N. delta_weight r) \<and>
         (\<exists>loc. multilateralTriangulation rs N = Inr loc \<and>
            Min ((\<lambda>r. Lat (Server r)) ` set (top_entries rs N)) \<le> LocLat loc \<and>
            LocLat loc \<le> Max ((\<lambda>r. Lat (Server r)) ` set (top_entries rs N)) \<and>
            Min ((\<lambda>r. Lon (Server r)) ` set (top_entries rs N)) \<le> LocLon loc \<and>
            LocLon loc \<le> Max ((\<lambda>r. Lon (Server r)) ` set (top_entries rs N)))"
proof -
  define top where "top = top_entries rs N"
  define W where "W = (\<Sum>r\<leftarrow>top. delta_weight r)"
  have nn: "\<forall>r\<in>set top. 0 \<le>s Delta r"
    using assms(2) top_entries_subset[of rs N] by (auto simp: top_def)
  then have pos: "\<forall>r\<in>set top. 0 < delta_weight r" by (simp add: delta_weight_pos)
  have ne: "top \<noteq> []" unfolding top_def using assms(1,3) by (intro top_entries_nonempty) auto
  have W: "0 < W" unfolding W_def using pos ne by (rule weights_sum_pos)
  have ms: "\<not> (\<exists>r\<in>set top. delta_ms r + 1 = 0)"
    using nn delta_ms_nonneg(2) by fastforce
  define loc where "loc = \<lparr>LocLat = (\<Sum>r\<leftarrow>top. Lat (Server r) * delta_weight r) / W,
                            LocLon = (\<Sum>r\<leftarrow>top. Lon (Server r) * delta_weight r) / W\<rparr>"
  have res: "multilateralTriangulation rs N = Inr loc"
    unfolding multilateral_refines[OF assms(1)] multilateration_spec_def Let_def
      top_def[symmetric] weighted_mean_map W_def[symmetric] loc_def
    using ms W by simp
  have bounds: "Min (v ` set top) \<le> (\<Sum>r\<leftarrow>top. v r * delta_weight r) / W \<and>
                (\<Sum>r\<leftarrow>top. v r * delta_weight r) / W \<le> Max (v ` set top)"
    for v :: "Result \<Rightarrow> real"
  proof -
    have "\<forall>r\<in>set top. Min (v ` set top) \<le> v r \<and> v r \<le> Max (v ` set top)" by simp
    from weighted_sum_bounds[OF pos this]
    have "Min (v ` set top) * W \<le> (\<Sum>r\<leftarrow>top. v r * delta_weight r)"
      "(\<Sum>r\<leftarrow>top. v r * delta_weight r) \<le> Max (v ` set top) * W"
      by (simp_all add: W_def)
    then show ?thesis using W by (simp add: pos_le_divide_eq pos_divide_le_eq)
  qed
  have "Min ((\<lambda>r. Lat (Server r)) ` set top) \<le> LocLat loc \<and>
        LocLat loc \<le> Max ((\<lambda>r. Lat (Server r)) ` set top) \<and>
        Min ((\<lambda>r. Lon (Server r)) ` set top) \<le> LocLon loc \<and>
        LocLon loc \<le> Max ((\<lambda>r. Lon (Server r)) ` set top)"
    using bounds[of "\<lambda>r. Lat (Server r)"] bounds[of "\<lambda>r. Lon (Server r)"]
    by (simp add: loc_def)
  with res pos W show ?thesis unfolding top_def W_def by blast
qed

subsection \<open>Rounding to binary64\<close>

lemma rne_error: "\<bar>of_int (rne y) - y\<bar> \<le> 1 / 2"
proof -
  have "of_int \<lfloor>y\<rfloor> \<le> y" "y < of_int \<lfloor>y\<rfloor> + 1" by linarith+
  then show ?thesis by (auto simp: rne_def Let_def)
qed


lemma rne_nonpos: "y \<le> 0 \<Longrightarrow> rne y \<le> 0"
proof -
  assume a: "y \<le> 0"
  have "of_int (rne y) \<le> y + 1 / 2" using rne_error[of y] by linarith
  then have "real_of_int (rne y) < 1" using a by linarith
  then show ?thesis by linarith
qed

lemma rne_of_int: "rne (of_int k) = k"
  by (simp add: rne_def)








lemma round64_nonpos: "x \<le> 0 \<Longrightarrow> round64 x \<le> 0"
  by (simp add: round64_def rne_nonpos mult_nonpos_nonneg divide_nonpos_pos)




subsection \<open>Error bounds of the accumulation\<close>


















subsection \<open>The multilateration estimate in binary64\<close>



























subsection \<open>Fewer than three entries\<close>

text \<open>
  Claim C2 (degenerate input), as the code has it. On fewer than three Results the
  multilateration returns the location \<open>(0, 0)\<close>; the trilateration path reports
  that there are not enough servers, calls \<open>trilaterate\<close> not at all and produces
  no location. Neither reads the list, so neither can panic.
\<close>

theorem degenerate_input:
  assumes "length rs < 3"
  shows "multilateralTriangulation rs n = Inr \<lparr>LocLat = 0, LocLon = 0\<rparr> \<and>
         displayTriangulation rs = NotEnoughServers"
  using assms by (simp add: multilateralTriangulation_def displayTriangulation_def)

theorem degenerate_input_witness:
  "length (take 2 example_results) < 3 \<and>
   multilateralTriangulation (take 2 example_results) 10 = Inr \<lparr>LocLat = 0, LocLon = 0\<rparr> \<and>
   displayTriangulation (take 2 example_results) = NotEnoughServers"
proof -
  have a: "length (take 2 example_results) < 3" by simp
  from degenerate_input[OF a, of 10] a show ?thesis by blast
qed

text \<open>
  The trilateration path yields no \<open>(0, 0)\<close> location on two Results: its report
  has no estimate.
\<close>

theorem degenerate_input_counterexample:
  "length (take 2 example_results) < 3 \<and>
   trilateration_estimate (displayTriangulation (take 2 example_results))
     \<noteq> Some (Inr \<lparr>LocLat = 0, LocLon = 0\<rparr>)"
proof -
  have a: "length (take 2 example_results) < 3" by simp
  then have "displayTriangulation (take 2 example_results) = NotEnoughServers"
    by (simp only: displayTriangulation_def if_True)
  then show ?thesis using a by (simp add: trilateration_estimate_def)
qed

subsection \<open>The trilateration estimate\<close>

















subsection \<open>Ranking\<close>

lemma sorted_key_unique:
  fixes f :: "'a \<Rightarrow> int"
  assumes "mset ys = mset xs" "sorted (map f xs)" "sorted (map f ys)" "distinct (map f xs)"
  shows "ys = xs"
proof -
  have m: "mset (map f ys) = mset (map f xs)" using assms(1) by simp
  then have d: "distinct (map f ys)" using assms(4) by (metis mset_eq_imp_distinct_iff)
  have "set (map f ys) = set (map f xs)" using m by (metis set_mset_mset)
  then have eq: "map f ys = map f xs"
    using assms(2,3,4) d by (intro sorted_distinct_set_unique) simp_all
  have s: "set ys = set xs" using assms(1) by (metis set_mset_mset)
  have "inj_on f (set xs)" using assms(4) by (simp add: distinct_map)
  then have "inj_on f (set ys \<union> set xs)" using s by simp
  then show ?thesis using eq by (simp add: inj_on_map_eq_map)
qed

lemma rank_sorted:
  assumes "rank rs ranked"
  shows "sorted (map (\<lambda>r. sint (Delta r)) ranked)"
proof -
  have "sorted_wrt (\<lambda>a b. \<not> delta_less b a) ranked"
    using assms by (simp add: rank_def sort_Slice_def)
  then have "sorted_wrt (\<lambda>a b. sint (Delta a) \<le> sint (Delta b)) ranked"
    by (simp add: delta_less_def word_sless_alt not_less)
  then show ?thesis by (simp add: sorted_map)
qed

text \<open>
  Claim C3 (ranking), as the code has it. Every outcome of the ranking step is a
  rearrangement of the Results with deltas in non-decreasing order; when the deltas
  are pairwise distinct it is the stable sort, which is always one of the outcomes.
  The order of Results with equal deltas is not fixed: the step is
  \<^verbatim>\<open>sort.Slice\<close>, not \<^verbatim>\<open>sort.SliceStable\<close>.
\<close>

theorem rank_sorted_permutation:
  assumes "rank rs ranked"
  shows "mset ranked = mset rs \<and>
         sorted (map (\<lambda>r. sint (Delta r)) ranked) \<and>
         (distinct (map Delta rs) \<longrightarrow> ranked = stable_rank rs) \<and>
         rank rs (stable_rank rs)"
proof (intro conjI impI)
  show m: "mset ranked = mset rs" using assms by (simp add: rank_def sort_Slice_def)
  show s: "sorted (map (\<lambda>r. sint (Delta r)) ranked)" using assms by (rule rank_sorted)
  show r: "rank rs (stable_rank rs)" unfolding stable_rank_def by (rule rank_stable)
  assume "distinct (map Delta rs)"
  moreover have "inj_on sint (set (map Delta rs))"
    by (rule inj_onI) (rule signed_word_eqI)
  ultimately have "distinct (map sint (map Delta rs))"
    by (simp only: distinct_map)
  then have d: "distinct (map (\<lambda>r. sint (Delta r)) rs)" by (simp add: comp_def)
  have "mset (map (\<lambda>r. sint (Delta r)) (stable_rank rs)) = mset (map (\<lambda>r. sint (Delta r)) rs)"
    by (simp add: stable_rank_def)
  then have d': "distinct (map (\<lambda>r. sint (Delta r)) (stable_rank rs))"
    using d by (metis mset_eq_imp_distinct_iff)
  have "ranked = stable_rank rs"
    by (rule sorted_key_unique[where f = "\<lambda>r. sint (Delta r)"])
       (simp_all add: m s d' rank_sorted[OF r], simp add: stable_rank_def)
  then show "ranked = stable_rank rs" .
qed

theorem rank_sorted_permutation_witness:
  "rank example_results (stable_rank example_results) \<and>
   mset (stable_rank example_results) = mset example_results \<and>
   sorted (map (\<lambda>r. sint (Delta r)) (stable_rank example_results))"
proof -
  have "rank example_results (stable_rank example_results)"
    unfolding stable_rank_def by (rule rank_stable)
  from rank_sorted_permutation[OF this] this show ?thesis by blast
qed

lemma Delta_tie:
  "Delta (measurement 20000000 s 30000000) = 10000000"
  "Delta (measurement 20000000 s 25000000) = 5000000"
  by (simp_all add: measurement_def Let_def word_sless_alt)

lemma Name_measurement: "Name (Server (measurement t s avg)) = Name s"
  by (simp add: measurement_def Let_def)

lemma tie_results_eq:
  "tie_results =
     [measurement 20000000 (catalog_head ! 0) 30000000,
      measurement 20000000 (catalog_head ! 1) 30000000,
      measurement 20000000 (catalog_head ! 2) 30000000,
      measurement 20000000 (catalog_head ! 3) 30000000,
      measurement 20000000 (catalog_head ! 4) 30000000,
      measurement 20000000 (catalog_head ! 5) 30000000,
      measurement 20000000 (catalog_head ! 6) 30000000,
      measurement 20000000 (catalog_head ! 7) 30000000,
      measurement 20000000 (catalog_head ! 8) 30000000,
      measurement 20000000 (catalog_head ! 9) 30000000,
      measurement 20000000 (catalog_head ! 10) 30000000,
      measurement 20000000 (catalog_head ! 11) 30000000,
      measurement 20000000 (catalog_head ! 12) 25000000]"
  by (simp add: tie_results_def catalog_head_def)

lemma tie_names:
  "Name (Server (tie_results ! 0)) = ''Cloudflare''"
  "Name (Server (tie_results ! 6)) = ''Orange''"
  by (simp_all add: tie_results_eq Name_measurement) (simp_all add: catalog_head_def)

lemma rank_pivot_swap:
  assumes "Delta r0 = 10000000" "Delta r1 = 10000000" "Delta r2 = 10000000"
    "Delta r3 = 10000000" "Delta r4 = 10000000" "Delta r5 = 10000000" "Delta r6 = 10000000"
    "Delta r7 = 10000000" "Delta r8 = 10000000" "Delta r9 = 10000000" "Delta r10 = 10000000"
    "Delta r11 = 10000000" "Delta r12 = 5000000"
  shows "rank [r0, r1, r2, r3, r4, r5, r6, r7, r8, r9, r10, r11, r12]
              [r12, r6, r2, r3, r4, r5, r0, r7, r8, r9, r10, r11, r1]"
    and "stable_rank [r0, r1, r2, r3, r4, r5, r6, r7, r8, r9, r10, r11, r12]
         = [r12, r0, r1, r2, r3, r4, r5, r6, r7, r8, r9, r10, r11]"
proof -
  have "mset [r12, r6, r2, r3, r4, r5, r0, r7, r8, r9, r10, r11, r1]
      = mset [r0, r1, r2, r3, r4, r5, r6, r7, r8, r9, r10, r11, r12]"
    by simp
  moreover have "sorted_wrt (\<lambda>a b. \<not> delta_less b a)
      [r12, r6, r2, r3, r4, r5, r0, r7, r8, r9, r10, r11, r1]"
    by (simp add: delta_less_def assms)
  ultimately show "rank [r0, r1, r2, r3, r4, r5, r6, r7, r8, r9, r10, r11, r12]
              [r12, r6, r2, r3, r4, r5, r0, r7, r8, r9, r10, r11, r1]"
    by (simp only: rank_def sort_Slice_def)
  show "stable_rank [r0, r1, r2, r3, r4, r5, r6, r7, r8, r9, r10, r11, r12]
         = [r12, r0, r1, r2, r3, r4, r5, r6, r7, r8, r9, r10, r11]"
    by (simp add: stable_rank_def assms)
qed

lemma tie_indexed:
  "map ((!) tie_results) [12, 6, 2, 3, 4, 5, 0, 7, 8, 9, 10, 11, 1] =
     [measurement 20000000 (catalog_head ! 12) 25000000,
      measurement 20000000 (catalog_head ! 6) 30000000,
      measurement 20000000 (catalog_head ! 2) 30000000,
      measurement 20000000 (catalog_head ! 3) 30000000,
      measurement 20000000 (catalog_head ! 4) 30000000,
      measurement 20000000 (catalog_head ! 5) 30000000,
      measurement 20000000 (catalog_head ! 0) 30000000,
      measurement 20000000 (catalog_head ! 7) 30000000,
      measurement 20000000 (catalog_head ! 8) 30000000,
      measurement 20000000 (catalog_head ! 9) 30000000,
      measurement 20000000 (catalog_head ! 10) 30000000,
      measurement 20000000 (catalog_head ! 11) 30000000,
      measurement 20000000 (catalog_head ! 1) 30000000]"
  "map ((!) tie_results) [12, 0, 1, 2, 3, 4, 5, 6, 7, 8, 9, 10, 11] =
     [measurement 20000000 (catalog_head ! 12) 25000000,
      measurement 20000000 (catalog_head ! 0) 30000000,
      measurement 20000000 (catalog_head ! 1) 30000000,
      measurement 20000000 (catalog_head ! 2) 30000000,
      measurement 20000000 (catalog_head ! 3) 30000000,
      measurement 20000000 (catalog_head ! 4) 30000000,
      measurement 20000000 (catalog_head ! 5) 30000000,
      measurement 20000000 (catalog_head ! 6) 30000000,
      measurement 20000000 (catalog_head ! 7) 30000000,
      measurement 20000000 (catalog_head ! 8) 30000000,
      measurement 20000000 (catalog_head ! 9) 30000000,
      measurement 20000000 (catalog_head ! 10) 30000000,
      measurement 20000000 (catalog_head ! 11) 30000000]"
  by (simp_all add: tie_results_eq)

text \<open>
  Thirteen Results, the first twelve tied at 10 ms and the last at 5 ms. The list
  with the last entry first, then the tied entry of position 6, the entry of position
  0 at position 6 and the entry of position 1 at the end is sorted by delta, an
  outcome that the contract of \<^verbatim>\<open>sort.Slice\<close> admits (a quicksort that swaps its
  pivot to the front may leave tied entries so). The stable sort only moves the last
  entry to the front.
\<close>

theorem ranking_not_stable_counterexample:
  "rank tie_results (map ((!) tie_results) [12, 6, 2, 3, 4, 5, 0, 7, 8, 9, 10, 11, 1]) \<and>
   stable_rank tie_results = map ((!) tie_results) [12, 0, 1, 2, 3, 4, 5, 6, 7, 8, 9, 10, 11] \<and>
   map ((!) tie_results) [12, 6, 2, 3, 4, 5, 0, 7, 8, 9, 10, 11, 1] \<noteq> stable_rank tie_results \<and>
   Delta (tie_results ! 6) = Delta (tie_results ! 0)"
proof -
  have r: "rank tie_results (map ((!) tie_results) [12, 6, 2, 3, 4, 5, 0, 7, 8, 9, 10, 11, 1])"
    unfolding tie_indexed unfolding tie_results_eq
    by (rule rank_pivot_swap) (rule Delta_tie)+
  have s: "stable_rank tie_results = map ((!) tie_results) [12, 0, 1, 2, 3, 4, 5, 6, 7, 8, 9, 10, 11]"
    unfolding tie_indexed unfolding tie_results_eq
    by (rule rank_pivot_swap) (rule Delta_tie)+
  have "Name (Server (tie_results ! 6)) \<noteq> Name (Server (tie_results ! 0))"
    by (simp add: tie_names)
  then have "tie_results ! 6 \<noteq> tie_results ! 0" by auto
  then have n: "map ((!) tie_results) [12, 6, 2, 3, 4, 5, 0, 7, 8, 9, 10, 11, 1]
      \<noteq> map ((!) tie_results) [12, 0, 1, 2, 3, 4, 5, 6, 7, 8, 9, 10, 11]"
    by (simp only: list.map list.inject) blast
  have d: "Delta (tie_results ! 6) = Delta (tie_results ! 0)"
    by (simp add: tie_results_eq Delta_tie)
  show ?thesis using r s n d by (simp only: simp_thms)
qed

subsection \<open>Statistics\<close>

lemma countryStats_lookup:
  "countryStats m rs c =
     (if c \<in> (\<lambda>r. Country (Server r)) ` set rs
      then Some ((case m c of None \<Rightarrow> 0 | Some n \<Rightarrow> n)
                 + int (count_list (map (\<lambda>r. Country (Server r)) rs) c))
      else m c)"
proof (induction rs arbitrary: m)
  case Nil
  then show ?case by simp
next
  case (Cons r rs)
  show ?case
    by (simp add: Cons.IH split: option.splits)
qed

lemma totalRTT_sum: "totalRTT t rs = t + sum_list (map (\<lambda>r. AvgRTT (Server r)) rs)"
  by (induction rs arbitrary: t) (simp_all add: add.assoc)

lemma sint_add_nonneg:
  assumes "0 \<le> sint (a::64 word)" "0 \<le> sint (b::64 word)" "sint a + sint b < 2 ^ 63"
  shows "sint (a + b) = sint a + sint b"
  using assms by (simp add: sint_word_ariths signed_take_bit_int_eq_self)

lemma sint_sum_list:
  assumes "\<forall>w\<in>set ws. 0 \<le> sint (w::64 word)" "(\<Sum>w\<leftarrow>ws. sint w) < 2 ^ 63"
  shows "sint (sum_list ws) = (\<Sum>w\<leftarrow>ws. sint w)"
  using assms
proof (induction ws)
  case Nil
  then show ?case by simp
next
  case (Cons w ws)
  have nn: "0 \<le> (\<Sum>w\<leftarrow>ws. sint w)" using Cons.prems(1) by (intro sum_list_nonneg) auto
  have w: "0 \<le> sint w" using Cons.prems(1) by simp
  have "(\<Sum>w\<leftarrow>ws. sint w) < 2 ^ 63" using Cons.prems(2) w by simp
  then have ih: "sint (sum_list ws) = (\<Sum>w\<leftarrow>ws. sint w)" using Cons by simp
  have "sint (w + sum_list ws) = sint w + sint (sum_list ws)"
    using w nn Cons.prems(2) by (intro sint_add_nonneg) (simp_all add: ih)
  then show ?case by (simp add: ih)
qed

lemma sint_word_of_nat64:
  assumes "n < 2 ^ 63"
  shows "sint (word_of_nat n :: 64 word) = int n"
proof -
  have "sint (word_of_int (int n) :: 64 word) = int n"
    using assms by (intro sint_word_of_int64) simp_all
  then show ?thesis by simp
qed

lemma mean_rtt:
  assumes "rs \<noteq> []" "\<forall>r\<in>set rs. 0 \<le>s AvgRTT (Server r)"
      and "(\<Sum>r\<leftarrow>rs. sint (AvgRTT (Server r))) < 2 ^ 63" "length rs < 2 ^ 63"
  shows "sint (duration_div (totalRTT 0 rs) (word_of_nat (length rs)))
         = (\<Sum>r\<leftarrow>rs. sint (AvgRTT (Server r))) div int (length rs)"
proof -
  have "sint (sum_list (map (\<lambda>r. AvgRTT (Server r)) rs))
        = (\<Sum>w\<leftarrow>map (\<lambda>r. AvgRTT (Server r)) rs. sint w)"
    using assms(2,3) by (intro sint_sum_list) (simp_all add: word_sle_eq comp_def)
  then have t: "sint (totalRTT 0 rs) = (\<Sum>r\<leftarrow>rs. sint (AvgRTT (Server r)))"
    by (simp add: totalRTT_sum comp_def)
  have "0 \<le> (\<Sum>r\<leftarrow>rs. sint (AvgRTT (Server r)))"
    using assms(2) by (intro sum_list_nonneg) (auto simp: word_sle_eq)
  then have t0: "0 \<le> sint (totalRTT 0 rs)" using t by simp
  have k: "sint (word_of_nat (length rs) :: 64 word) = int (length rs)"
    using assms(4) by (rule sint_word_of_nat64)
  then have k0: "0 < sint (word_of_nat (length rs) :: 64 word)" using assms(1) by simp
  show ?thesis using sint_duration_div_nonneg[OF t0 k0] t k by simp
qed

lemma map_range_set:
  assumes "map_range m countries"
  shows "set countries = {(c, n). m c = Some n}"
  using assms by (auto simp: map_range_def)

lemma sort_Slice_count:
  assumes "sort_Slice count_greater countries countries'"
  shows "sorted_wrt (\<lambda>a b. snd b \<le> snd a) countries'"
    and "set countries' = set countries"
    and "distinct (map fst countries') \<longleftrightarrow> distinct (map fst countries)"
proof -
  have m: "mset countries' = mset countries" using assms by (simp add: sort_Slice_def)
  show "set countries' = set countries" using m by (metis set_mset_mset)
  have "mset (map fst countries') = mset (map fst countries)" using m by simp
  then show "distinct (map fst countries') \<longleftrightarrow> distinct (map fst countries)"
    by (rule mset_eq_imp_distinct_iff)
  have "sorted_wrt (\<lambda>a b. \<not> count_greater b a) countries'"
    using assms by (simp add: sort_Slice_def)
  then show "sorted_wrt (\<lambda>a b. snd b \<le> snd a) countries'"
    by (simp add: count_greater_def not_less)
qed

lemma example_rtts:
  "AvgRTT (Server (measurement 20000000 cloudflare_paris 30000000)) = 30000000"
  "AvgRTT (Server (measurement 20000000 google_uk 60000000)) = 60000000"
  "AvgRTT (Server (measurement 20000000 hetzner_frankfurt 100000000)) = 100000000"
  by (simp_all add: example_servers)

lemma example_countries:
  "Country (Server (measurement 20000000 cloudflare_paris 30000000)) = ''France''"
  "Country (Server (measurement 20000000 google_uk 60000000)) = ''UK''"
  "Country (Server (measurement 20000000 hetzner_frankfurt 100000000)) = ''Germany''"
  by (simp_all add: example_servers cloudflare_paris_def google_uk_def hetzner_frankfurt_def)

lemma example_take2:
  "take 2 example_results =
     [measurement 20000000 cloudflare_paris 30000000, measurement 20000000 google_uk 60000000]"
  by (simp add: example_results_eq)

text \<open>
  Claim C9 (summary), as the code has it. On an empty list \<open>displayStatistics\<close>
  does nothing. On a non-empty list it prints the first ten entries of a list that
  holds every country of the Results once, with the number of its Results, in
  descending order of that number; the order among equal numbers is not fixed. The
  average RTT is the \<^verbatim>\<open>int64\<close> sum of the RTTs divided by the number of Results:
  while the RTTs are not negative and their sum does not overflow, it is the mean
  rounded down to a whole nanosecond.
\<close>

theorem statistics_summary:
  assumes "displayStatistics rs out"
  shows "(rs = [] \<longrightarrow> out = None) \<and>
         (rs \<noteq> [] \<longrightarrow>
            (\<exists>st counts. out = Some st \<and>
               countryLines st = take 10 counts \<and>
               sorted_wrt (\<lambda>a b. snd b \<le> snd a) counts \<and>
               distinct (map fst counts) \<and>
               set counts = {(c, n). c \<in> (\<lambda>r. Country (Server r)) ` set rs \<and>
                                    n = int (count_list (map (\<lambda>r. Country (Server r)) rs) c)} \<and>
               avgRTT st = duration_div (sum_list (map (\<lambda>r. AvgRTT (Server r)) rs))
                                        (word_of_nat (length rs)) \<and>
               totalServers st = int (length rs) \<and>
               ((\<forall>r\<in>set rs. 0 \<le>s AvgRTT (Server r)) \<and>
                (\<Sum>r\<leftarrow>rs. sint (AvgRTT (Server r))) < 2 ^ 63 \<and> length rs < 2 ^ 63 \<longrightarrow>
                sint (avgRTT st) = (\<Sum>r\<leftarrow>rs. sint (AvgRTT (Server r))) div int (length rs))))"
  using assms
proof (cases rule: displayStatistics.cases)
  case no_results
  then show ?thesis by simp
next
  case (statistics countries countries')
  define st where "st = \<lparr>countryLines = take 10 countries',
      avgRTT = duration_div (totalRTT 0 rs) (word_of_nat (length rs)),
      totalServers = int (length rs)\<rparr>"
  have out: "out = Some st" using statistics(1) by (simp add: st_def)
  have d: "distinct (map fst countries')"
    using sort_Slice_count(3)[OF statistics(4)] statistics(3) by (simp add: map_range_def)
  have "set countries' = {(c, n). countryStats Map.empty rs c = Some n}"
    using sort_Slice_count(2)[OF statistics(4)] map_range_set[OF statistics(3)] by simp
  also have "\<dots> = {(c, n). c \<in> (\<lambda>r. Country (Server r)) ` set rs \<and>
                                    n = int (count_list (map (\<lambda>r. Country (Server r)) rs) c)}"
    by (auto simp: countryStats_lookup split: if_splits)
  finally have s: "set countries' = {(c, n). c \<in> (\<lambda>r. Country (Server r)) ` set rs \<and>
                                    n = int (count_list (map (\<lambda>r. Country (Server r)) rs) c)}" .
  have a: "avgRTT st = duration_div (sum_list (map (\<lambda>r. AvgRTT (Server r)) rs))
                                        (word_of_nat (length rs))"
    by (simp add: st_def totalRTT_sum)
  have mean: "sint (avgRTT st) = (\<Sum>r\<leftarrow>rs. sint (AvgRTT (Server r))) div int (length rs)"
    if "(\<forall>r\<in>set rs. 0 \<le>s AvgRTT (Server r)) \<and>
        (\<Sum>r\<leftarrow>rs. sint (AvgRTT (Server r))) < 2 ^ 63 \<and> length rs < 2 ^ 63"
    using that statistics(2) mean_rtt[of rs] by (simp add: st_def)
  have "countryLines st = take 10 countries'" "totalServers st = int (length rs)"
    by (simp_all add: st_def)
  with out d s a mean sort_Slice_count(1)[OF statistics(4)] statistics(2)
  show ?thesis by blast
qed

theorem statistics_summary_witness:
  "\<exists>out st. displayStatistics example_results out \<and> out = Some st \<and>
      totalServers st = 3 \<and> sint (avgRTT st) = 63333333 \<and> length (countryLines st) = 3"
proof -
  obtain out where out: "displayStatistics example_results out"
    using displayStatistics_exists by blast
  have ne: "example_results \<noteq> []" by (simp add: example_results_eq)
  have h: "(\<forall>r\<in>set example_results. 0 \<le>s AvgRTT (Server r)) \<and>
      (\<Sum>r\<leftarrow>example_results. sint (AvgRTT (Server r))) < 2 ^ 63 \<and>
      length example_results < 2 ^ 63"
    by (simp add: example_results_eq example_rtts word_sle_eq)
  from statistics_summary[OF out] ne obtain st counts where
    st: "out = Some st" "countryLines st = take 10 counts" "distinct (map fst counts)"
      "set counts = {(c, n). c \<in> (\<lambda>r. Country (Server r)) ` set example_results \<and>
          n = int (count_list (map (\<lambda>r. Country (Server r)) example_results) c)}"
      "totalServers st = int (length example_results)"
      "(\<forall>r\<in>set example_results. 0 \<le>s AvgRTT (Server r)) \<and>
         (\<Sum>r\<leftarrow>example_results. sint (AvgRTT (Server r))) < 2 ^ 63 \<and>
         length example_results < 2 ^ 63 \<longrightarrow>
       sint (avgRTT st) = (\<Sum>r\<leftarrow>example_results. sint (AvgRTT (Server r)))
         div int (length example_results)"
    by blast
  have mean: "sint (avgRTT st) = 63333333"
    using st(6) h by (simp add: example_results_eq example_rtts)
  have "fst ` set counts = {''France'', ''UK'', ''Germany''}"
    unfolding st(4) by (auto simp: example_results_eq example_countries image_iff)
  then have "card (set (map fst counts)) = 3" by simp
  then have "length counts = 3" using st(3) by (metis distinct_card length_map)
  then have "length (countryLines st) = 3" by (simp add: st(2))
  moreover have "totalServers st = 3" using st(5) by (simp add: example_results_length)
  ultimately show ?thesis using out st(1) mean by blast
qed

text \<open>
  France is met before the UK and both count one Result: printing the UK first is an
  outcome of the map iteration, whose order Go leaves open.
\<close>

theorem statistics_summary_counterexample:
  "map (\<lambda>r. Country (Server r)) (take 2 example_results) = [''France'', ''UK''] \<and>
   displayStatistics (take 2 example_results)
     (Some \<lparr>countryLines = [(''UK'', 1), (''France'', 1)], avgRTT = 45000000, totalServers = 2\<rparr>)"
proof -
  define rs where "rs = take 2 example_results"
  have ne: "rs \<noteq> []" by (simp add: rs_def example_take2)
  have "map_of [(''UK'', 1::int), (''France'', 1)] = countryStats Map.empty rs"
    by (rule ext) (simp add: rs_def example_take2 example_countries)
  then have m: "map_range (countryStats Map.empty rs) [(''UK'', 1), (''France'', 1)]"
    by (simp add: map_range_def)
  have s: "sort_Slice count_greater [(''UK'', 1::int), (''France'', 1)] [(''UK'', 1), (''France'', 1)]"
    by (simp add: sort_Slice_def count_greater_def)
  have a: "duration_div (totalRTT 0 rs) (word_of_nat (length rs)) = 45000000"
    by (simp add: rs_def example_take2 example_rtts duration_div_def signed_divide_int_def)
  have l: "int (length rs) = 2" by (simp add: rs_def example_take2)
  from displayStatistics.statistics[OF ne m s]
  have "displayStatistics rs
     (Some \<lparr>countryLines = [(''UK'', 1), (''France'', 1)], avgRTT = 45000000, totalServers = 2\<rparr>)"
    by (simp add: a l)
  then show ?thesis by (simp add: rs_def[symmetric]) (simp add: rs_def example_take2 example_countries)
qed

end
